theory Spec2Isabelle
  imports Complex_Main
begin

section \<open>Data model (types.ts)\<close>

text \<open>
  The enums of \<^verbatim>\<open>types.ts\<close> are string enums whose members carry their own names.
  JavaScript strings are modelled as \<^typ>\<open>string\<close>, one \<^typ>\<open>char\<close> per code unit
  (the texts the orchestrator builds itself are ASCII).
\<close>

datatype AgentDomain = HEALTH | EDUCATION | ENVIRONMENT | ORCHESTRATOR

datatype ExecutionMode = PARALLEL | SEQUENTIAL | LOOP | DIRECT | PAUSED | PLANNING

datatype Sentiment = POSITIVE | NEUTRAL | NEGATIVE | EMPATHETIC

text \<open>The string an \<^verbatim>\<open>AgentDomain\<close> member interpolates to in a template literal.\<close>

fun domain_str :: "AgentDomain \<Rightarrow> string" where
  "domain_str HEALTH = ''HEALTH''"
| "domain_str EDUCATION = ''EDUCATION''"
| "domain_str ENVIRONMENT = ''ENVIRONMENT''"
| "domain_str ORCHESTRATOR = ''ORCHESTRATOR''"

record AgentStep =
  agent :: AgentDomain
  instruction :: string

record AgentPlan =
  mode :: ExecutionMode
  steps :: "AgentStep list"
  reasoning :: string

text \<open>
  \<^verbatim>\<open>agentOutputs: Record<string, string>\<close> is only ever written at the key
  \<^verbatim>\<open>step.agent\<close>, so its keys are \<^typ>\<open>AgentDomain\<close> members. An object keeps its
  keys in insertion order, which \<^verbatim>\<open>Object.entries\<close> later reads: an association list.
\<close>

type_synonym AgentOutputs = "(AgentDomain \<times> string) list"

record PausedState =
  plan :: AgentPlan
  stepIndex :: nat
  accumulatedContext :: string
  agentOutputs :: AgentOutputs

record UserContext =
  name :: string
  location :: string
  healthConditions :: "string list"
  learningGoals :: "string list"
  ecoPreferences :: "string list"
  "notes" :: "string list"
  lastInteraction :: int

record EvaluationResult =
  score :: real
  feedback :: string
  latencyMs :: int
  tokenCost :: nat

text \<open>\<^verbatim>\<open>AgentMetric\<close>: \<^verbatim>\<open>{ name, value, unit, timestamp }\<close>.\<close>

record AgentMetric =
  metricName :: string
  metricValue :: int
  metricUnit :: string
  timestamp :: int

section \<open>TraceService\<close>

text \<open>
  \<^verbatim>\<open>Array.prototype.slice(start)\<close> with an integral \<^verbatim>\<open>start\<close> and no end: a negative
  start counts from the end of the array and is clamped at 0, a non-negative one is
  clamped at the length.
\<close>

definition slice :: "int \<Rightarrow> 'a list \<Rightarrow> 'a list" where
  "slice start xs =
     (let len = int (length xs);
          k = (if start < 0 then max (len + start) 0 else min start len)
      in drop (nat k) xs)"

text \<open>
  The service's state is its private \<^verbatim>\<open>metrics\<close> array. \<^verbatim>\<open>recordMetric\<close> takes the
  reading of \<^verbatim>\<open>Date.now()\<close> it stamps the metric with.
\<close>

definition recordMetric :: "string \<Rightarrow> int \<Rightarrow> string \<Rightarrow> int \<Rightarrow> AgentMetric list \<Rightarrow> AgentMetric list" where
  "recordMetric n v u now ms =
     ms @ [\<lparr>metricName = n, metricValue = v, metricUnit = u, timestamp = now\<rparr>]"

definition getRecentMetrics :: "int \<Rightarrow> AgentMetric list \<Rightarrow> AgentMetric list" where
  "getRecentMetrics count ms = slice (- count) ms"

definition clear :: "AgentMetric list \<Rightarrow> AgentMetric list" where
  "clear ms = []"

text \<open>The default argument \<^verbatim>\<open>count: number = 5\<close>.\<close>

definition getRecentMetrics_default :: "AgentMetric list \<Rightarrow> AgentMetric list" where
  "getRecentMetrics_default ms = getRecentMetrics 5 ms"

section \<open>MemoryBankService (memoryService.ts)\<close>

text \<open>
  The service's state is its private \<^verbatim>\<open>context\<close>. \<^verbatim>\<open>save()\<close> writes a JSON copy to
  \<^verbatim>\<open>localStorage\<close> and swallows every failure; it never changes \<^verbatim>\<open>context\<close> and is
  left out.
\<close>

text \<open>\<^verbatim>\<open>Partial<UserContext>\<close>: every field optional.\<close>

record PartialUserContext =
  name_opt :: "string option"
  location_opt :: "string option"
  healthConditions_opt :: "string list option"
  learningGoals_opt :: "string list option"
  ecoPreferences_opt :: "string list option"
  notes_opt :: "string list option"
  lastInteraction_opt :: "int option"

definition spread :: "'a \<Rightarrow> 'a option \<Rightarrow> 'a" where
  "spread old upd = (case upd of None \<Rightarrow> old | Some v \<Rightarrow> v)"

text \<open>
  \<^verbatim>\<open>{ ...this.context, ...updates, lastInteraction: Date.now() }\<close>; \<open>now\<close> is the reading
  of the clock.
\<close>

definition updateContext :: "PartialUserContext \<Rightarrow> int \<Rightarrow> UserContext \<Rightarrow> UserContext" where
  "updateContext updates now ctx =
     \<lparr>name = spread (name ctx) (name_opt updates),
      location = spread (location ctx) (location_opt updates),
      healthConditions = spread (healthConditions ctx) (healthConditions_opt updates),
      learningGoals = spread (learningGoals ctx) (learningGoals_opt updates),
      ecoPreferences = spread (ecoPreferences ctx) (ecoPreferences_opt updates),
      notes = spread (notes ctx) (notes_opt updates),
      lastInteraction = now\<rparr>"

text \<open>The object literal \<^verbatim>\<open>{ name: args.item }\<close>.\<close>

definition name_only :: "string \<Rightarrow> PartialUserContext" where
  "name_only n =
     \<lparr>name_opt = Some n, location_opt = None, healthConditions_opt = None,
      learningGoals_opt = None, ecoPreferences_opt = None, notes_opt = None,
      lastInteraction_opt = None\<rparr>"

definition addNote :: "string \<Rightarrow> UserContext \<Rightarrow> UserContext" where
  "addNote note ctx =
     (if note \<in> set (notes ctx) then ctx else ctx\<lparr>notes := notes ctx @ [note]\<rparr>)"

text \<open>The key type \<^verbatim>\<open>'healthConditions' | 'learningGoals' | 'ecoPreferences'\<close>.\<close>

datatype ArrayKey = Key_healthConditions | Key_learningGoals | Key_ecoPreferences

text \<open>Reading and writing \<^verbatim>\<open>this.context[key]\<close>.\<close>

fun context_at :: "ArrayKey \<Rightarrow> UserContext \<Rightarrow> string list" where
  "context_at Key_healthConditions ctx = healthConditions ctx"
| "context_at Key_learningGoals ctx = learningGoals ctx"
| "context_at Key_ecoPreferences ctx = ecoPreferences ctx"

fun context_at_update :: "ArrayKey \<Rightarrow> string list \<Rightarrow> UserContext \<Rightarrow> UserContext" where
  "context_at_update Key_healthConditions xs ctx = ctx\<lparr>healthConditions := xs\<rparr>"
| "context_at_update Key_learningGoals xs ctx = ctx\<lparr>learningGoals := xs\<rparr>"
| "context_at_update Key_ecoPreferences xs ctx = ctx\<lparr>ecoPreferences := xs\<rparr>"

definition addArrayItem :: "ArrayKey \<Rightarrow> string \<Rightarrow> UserContext \<Rightarrow> UserContext" where
  "addArrayItem key item ctx =
     (if item \<in> set (context_at key ctx) then ctx
      else context_at_update key (context_at key ctx @ [item]) ctx)"

text \<open>\<^verbatim>\<open>Array.prototype.join\<close> on an array of strings.\<close>

fun join :: "string \<Rightarrow> string list \<Rightarrow> string" where
  "join sep [] = []"
| "join sep [x] = x"
| "join sep (x # y # ys) = x @ sep @ join sep (y # ys)"

text \<open>\<^verbatim>\<open>a || b\<close> on strings: the empty string is falsy.\<close>

definition or_else :: "string \<Rightarrow> string \<Rightarrow> string" where
  "or_else a b = (if a = [] then b else a)"

definition getFormattedContext :: "UserContext \<Rightarrow> string" where
  "getFormattedContext ctx =
     ''\<newline>      [MEMORY BANK - LONG TERM USER CONTEXT]''
     @ ''\<newline>      Name: '' @ name ctx
     @ ''\<newline>      Location: '' @ location ctx
     @ ''\<newline>      Health Profile: '' @ or_else (join '', '' (healthConditions ctx)) ''None recorded''
     @ ''\<newline>      Learning Goals: '' @ or_else (join '', '' (learningGoals ctx)) ''None recorded''
     @ ''\<newline>      Eco Preferences: '' @ or_else (join '', '' (ecoPreferences ctx)) ''None recorded''
     @ ''\<newline>      Key Notes: '' @ join ''; '' (notes ctx)
     @ ''\<newline>    ''"

section \<open>Collaborators and process state (geminiService.ts)\<close>

text \<open>
  What the code throws: \<^verbatim>\<open>new Error("API Key is required")\<close>, the \<^verbatim>\<open>TypeError\<close> of
  reading a property of \<^verbatim>\<open>undefined\<close>, the \<^verbatim>\<open>SyntaxError\<close> of \<^verbatim>\<open>JSON.parse\<close>, and
  whatever a call to the reasoning service rejects with.
\<close>

datatype error = ApiKeyRequired | TypeError | SyntaxError | ServiceError string

text \<open>
  The arguments of a function call, with the fields the three declarations
  \<^verbatim>\<open>MEDICAL_RECORDS_TOOL\<close>, \<^verbatim>\<open>PAUSE_TOOL\<close> and \<^verbatim>\<open>UPDATE_MEMORY_TOOL\<close> require, all of
  type string; a tool reads only its own fields.
\<close>

record CallArgs =
  reason :: string
  patientId :: string
  category :: string
  item :: string

record FunctionCall =
  callName :: string
  args :: CallArgs

text \<open>
  Of a response the executor reads \<^verbatim>\<open>text\<close>, \<^verbatim>\<open>functionCalls\<close> and \<^verbatim>\<open>candidates\<close>
  (each possibly \<^verbatim>\<open>undefined\<close>), and of a candidate whether it has
  \<^verbatim>\<open>groundingMetadata\<close> and whether one of its content parts has \<^verbatim>\<open>executableCode\<close>.
\<close>

record Candidate =
  groundingMetadata :: bool
  executableCode :: bool

record GenerateContentResponse =
  responseText :: "string option"
  functionCalls :: "FunctionCall list option"
  candidates :: "Candidate list option"

text \<open>\<^verbatim>\<open>OPENAPI_TOOL_SIMULATION\<close> returns \<^verbatim>\<open>{status, data}\<close> or \<^verbatim>\<open>{status, error}\<close>.\<close>

datatype ApiResult = ApiData int string | ApiFailure int string

text \<open>
  The two non-empty values of \<^verbatim>\<open>functionResponse\<close>: \<^verbatim>\<open>{ result: apiResult }\<close> and
  \<^verbatim>\<open>{ result: { status: "success", message: "Memory updated." } }\<close>.
\<close>

datatype FunctionResponse = ToolResult ApiResult | MemoryUpdated

text \<open>
  What \<^verbatim>\<open>chat.sendMessage\<close> is given: the instruction, or a function response under the
  name of the call it answers.
\<close>

datatype Message = Instruction string | FunctionResponseMsg string FunctionResponse

text \<open>The values the synthesis request interpolates.\<close>

record SynthesisRequest =
  useThinking :: bool
  originalQuery :: string
  synthesisContext :: string
  historyContext :: string
  memoryContext :: string
  toolsUsed :: string
  responseLanguage :: string

text \<open>
  The requests the orchestrator sends out, each carrying the values its template
  interpolates: the summarization call (the transcript), the planning call (the planning
  context), the creation of a chat session (persona, context, language and
  memory text), a message to the session of a persona, the synthesis call and the scoring
  call (query and response).
\<close>

datatype event =
    SummaryRequest string
  | PlanRequest string
  | ChatCreate AgentDomain string string string
  | ChatSend AgentDomain Message
  | SynthRequest SynthesisRequest
  | ScoreRequest string string

text \<open>
  The outcome of a \<^verbatim>\<open>generateContent\<close> call whose text is read as JSON: the call
  rejects; or it returns and \<^verbatim>\<open>JSON.parse\<close> (or reading the parsed value) throws; or the
  value is there, of the shape of the response schema.
\<close>

datatype 'a generated = Failed error | Unparsable | Parsed 'a

typedecl ChartDataPoints

record FinalResponse =
  parsed_response :: string
  parsed_sentiment :: Sentiment
  parsed_crossDomainInsight :: "string option"
  parsed_suggestedAction :: "string option"
  parsed_toolCalls :: "string list option"
  parsed_chartData :: "ChartDataPoints option"

text \<open>
  The world outside the orchestrator: the clock (\<open>now k\<close> is the \<open>k\<close>-th reading of
  \<^verbatim>\<open>Date.now()\<close>) and the reasoning service. The service answers a request knowing
  everything sent so far: each reply is a function of the list of requests, the one
  being answered last.
\<close>

record collab =
  now :: "nat \<Rightarrow> int"
  summaryReply :: "event list \<Rightarrow> error + string option"
  planReply :: "event list \<Rightarrow> AgentPlan generated"
  chatReply :: "event list \<Rightarrow> error + GenerateContentResponse"
  synthReply :: "event list \<Rightarrow> FinalResponse generated"
  scoreReply :: "event list \<Rightarrow> (real \<times> string) generated"

text \<open>
  The state of the process: the singletons \<^verbatim>\<open>memoryBank\<close> (its context),
  \<^verbatim>\<open>traceService\<close> (its metrics) and \<^verbatim>\<open>sessionService\<close> (its session id), the number of
  clock readings taken, and the requests sent so far. Every function below takes the
  state and returns the new one next to its result, an error (\<open>Inl\<close>) when it throws.
  The \<^verbatim>\<open>onLog\<close> callback and \<^verbatim>\<open>console.log\<close> only report; their lines are not modelled.
  The API key only configures the client objects: past the entry check of the runner it
  is not passed on.
\<close>

record world =
  memoryBank :: UserContext
  traceService :: "AgentMetric list"
  sessionService :: string
  ticks :: nat
  events :: "event list"

definition Date_now :: "collab \<Rightarrow> world \<Rightarrow> int \<times> world" where
  "Date_now c w = (now c (ticks w), w\<lparr>ticks := Suc (ticks w)\<rparr>)"

definition send :: "event \<Rightarrow> world \<Rightarrow> world" where
  "send e w = w\<lparr>events := events w @ [e]\<rparr>"

text \<open>\<^verbatim>\<open>traceService.recordMetric(n, v, u)\<close>: the service reads the clock for the timestamp.\<close>

definition traceService_recordMetric :: "collab \<Rightarrow> string \<Rightarrow> int \<Rightarrow> string \<Rightarrow> world \<Rightarrow> world" where
  "traceService_recordMetric c n v u w =
     (case Date_now c w of (t, w1) \<Rightarrow> w1\<lparr>traceService := recordMetric n v u t (traceService w1)\<rparr>)"

text \<open>\<^verbatim>\<open>traceService.recordMetric(n, Date.now() - start, "ms")\<close>.\<close>

definition recordLatency :: "collab \<Rightarrow> string \<Rightarrow> int \<Rightarrow> world \<Rightarrow> world" where
  "recordLatency c n start w =
     (case Date_now c w of (t, w1) \<Rightarrow> traceService_recordMetric c n (t - start) ''ms'' w1)"

section \<open>Agent execution with tools and pause support\<close>

definition OPENAPI_TOOL_SIMULATION :: "string \<Rightarrow> CallArgs \<Rightarrow> ApiResult" where
  "OPENAPI_TOOL_SIMULATION operationId params =
     (if operationId = ''fetchMedicalRecords''
      then ApiData 200 (''Patient '' @ patientId params
             @ '': HR 72, BP 120/80, Allergies: Penicillin, Recent Labs: Normal'')
      else ApiFailure 404 ''Operation not found'')"

record AgentExecutionResult =
  resultText :: string
  isPaused :: bool
  pauseReason :: "string option"
  toolUsage :: "string list"

text \<open>The \<^verbatim>\<open>updateMemory\<close> branch of the loop: the dispatch on \<^verbatim>\<open>args.category\<close>.\<close>

definition updateMemory :: "collab \<Rightarrow> CallArgs \<Rightarrow> world \<Rightarrow> world" where
  "updateMemory c a w =
     (if category a = ''health''
        then w\<lparr>memoryBank := addArrayItem Key_healthConditions (item a) (memoryBank w)\<rparr>
      else if category a = ''education''
        then w\<lparr>memoryBank := addArrayItem Key_learningGoals (item a) (memoryBank w)\<rparr>
      else if category a = ''environment''
        then w\<lparr>memoryBank := addArrayItem Key_ecoPreferences (item a) (memoryBank w)\<rparr>
      else if category a = ''profile''
        then (case Date_now c w of (t, w1) \<Rightarrow>
                w1\<lparr>memoryBank := updateContext (name_only (item a)) t (memoryBank w1)\<rparr>)
      else w\<lparr>memoryBank := addNote (item a) (memoryBank w)\<rparr>)"

text \<open>
  The two client tools of the loop body: the function response each produces, with the
  state after it ran. Any other name gets none (the \<^verbatim>\<open>else { break; }\<close> branch).
\<close>

definition clientTool :: "collab \<Rightarrow> FunctionCall \<Rightarrow> world \<Rightarrow> (FunctionResponse \<times> world) option" where
  "clientTool c call w =
     (if callName call = ''fetchMedicalRecords''
        then Some (ToolResult (OPENAPI_TOOL_SIMULATION (callName call) (args call)), w)
      else if callName call = ''updateMemory''
        then Some (MemoryUpdated, updateMemory c (args call) w)
      else None)"

text \<open>
  How the \<^verbatim>\<open>while\<close> loop ends: by the \<^verbatim>\<open>return\<close> of the pause branch (with the reason
  and the tool usage), or by falling out of the loop (with the last response and the
  tool usage).
\<close>

datatype loop_exit =
    PauseRequested string "string list"
  | LoopDone GenerateContentResponse "string list"

text \<open>
  The loop \<^verbatim>\<open>while (response.functionCalls && response.functionCalls.length > 0 && turns < 5)\<close>.
  Both function responses have a key, so the test
  \<^verbatim>\<open>Object.keys(functionResponse).length > 0\<close> holds whenever it is reached.
\<close>

function toolLoop ::
  "collab \<Rightarrow> AgentDomain \<Rightarrow> GenerateContentResponse \<Rightarrow> nat \<Rightarrow> string list \<Rightarrow> world
     \<Rightarrow> (error + loop_exit) \<times> world" where
  "toolLoop c a response turns usage w =
     (case functionCalls response of
        Some (call # _) \<Rightarrow>
          if turns < 5 then
            if callName call = ''pauseWorkflow''
              then (Inr (PauseRequested (reason (args call)) (usage @ [callName call])), w)
            else
              (case clientTool c call w of
                 None \<Rightarrow> (Inr (LoopDone response (usage @ [callName call])), w)
               | Some (functionResponse, w1) \<Rightarrow>
                   (let w2 = send (ChatSend a (FunctionResponseMsg (callName call) functionResponse)) w1
                    in case chatReply c (events w2) of
                         Inl e \<Rightarrow> (Inl e, w2)
                       | Inr response' \<Rightarrow>
                           toolLoop c a response' (Suc turns) (usage @ [callName call]) w2))
          else (Inr (LoopDone response usage), w)
      | _ \<Rightarrow> (Inr (LoopDone response usage), w))"
  by pat_completeness auto
termination
  by (relation "measure (\<lambda>(c, a, response, turns, usage, w). 5 - turns)") auto

text \<open>
  \<^verbatim>\<open>response.candidates && response.candidates[0].groundingMetadata\<close>: an absent
  \<^verbatim>\<open>candidates\<close> is falsy, an empty array is truthy and reading its first element's
  property throws.
\<close>

definition hasGrounding :: "GenerateContentResponse \<Rightarrow> error + bool" where
  "hasGrounding response =
     (case candidates response of
        None \<Rightarrow> Inr False
      | Some [] \<Rightarrow> Inl TypeError
      | Some (cand # _) \<Rightarrow> Inr (groundingMetadata cand))"

text \<open>\<^verbatim>\<open>response.candidates?.[0]?.content?.parts?.find(p => p.executableCode)\<close>.\<close>

definition codePart :: "GenerateContentResponse \<Rightarrow> bool" where
  "codePart response =
     (case candidates response of
        Some (cand # _) \<Rightarrow> executableCode cand
      | _ \<Rightarrow> False)"

text \<open>\<^verbatim>\<open>response.text || "Task Completed."\<close>.\<close>

definition text_or :: "string option \<Rightarrow> string \<Rightarrow> string" where
  "text_or t d = (case t of None \<Rightarrow> d | Some s \<Rightarrow> or_else s d)"

definition executeAgent ::
  "collab \<Rightarrow> AgentDomain \<Rightarrow> string \<Rightarrow> string \<Rightarrow> string \<Rightarrow> world
     \<Rightarrow> (error + AgentExecutionResult) \<times> world" where
  "executeAgent c a instr ctx language w =
     (case Date_now c w of (start, w1) \<Rightarrow>
        (let w2 = send (ChatCreate a ctx language (getFormattedContext (memoryBank w1))) w1;
             w3 = send (ChatSend a (Instruction instr)) w2
         in case chatReply c (events w3) of
              Inl e \<Rightarrow> (Inl e, w3)
            | Inr response \<Rightarrow>
                (case hasGrounding response of
                   Inl e \<Rightarrow> (Inl e, w3)
                 | Inr grounded \<Rightarrow>
                     (case toolLoop c a response 0
                             ((if grounded then [''googleSearch''] else [])
                              @ (if codePart response then [''codeExecution''] else [])) w3 of
                        (Inl e, w4) \<Rightarrow> (Inl e, w4)
                      | (Inr (PauseRequested r usage), w4) \<Rightarrow>
                          (Inr \<lparr>resultText = ''Workflow Paused: '' @ r, isPaused = True,
                                pauseReason = Some r, toolUsage = usage\<rparr>,
                           recordLatency c ''AgentExecutionTime'' start w4)
                      | (Inr (LoopDone final usage), w4) \<Rightarrow>
                          (Inr \<lparr>resultText = text_or (responseText final) ''Task Completed.'',
                                isPaused = False, pauseReason = None, toolUsage = usage\<rparr>,
                           recordLatency c ''AgentExecutionTime'' start w4)))))"

section \<open>Context compaction, evaluation and planning\<close>

text \<open>A prior turn: \<^verbatim>\<open>{ role: string; parts: { text: string }[] }\<close>.\<close>

record Turn =
  role :: string
  parts :: "string list"

text \<open>
  \<^verbatim>\<open>String.prototype.toUpperCase\<close>, on ASCII: a letter from \<^verbatim>\<open>a\<close> (97) to \<^verbatim>\<open>z\<close> (122)
  loses the bit of value 32, every other character stays.
\<close>

definition toUpperCase :: "string \<Rightarrow> string" where
  "toUpperCase s =
     map (\<lambda>ch. if 97 \<le> (of_char ch :: nat) \<and> (of_char ch :: nat) \<le> 122
               then (case ch of Char b0 b1 b2 b3 b4 b5 b6 b7 \<Rightarrow> Char b0 b1 b2 b3 b4 False b6 b7)
               else ch) s"

text \<open>
  The template \<^verbatim>\<open>`${h.role.toUpperCase()}: ${h.parts[0].text}`\<close>: reading \<^verbatim>\<open>text\<close> of
  the first part of a turn without parts throws.
\<close>

definition turnLine :: "Turn \<Rightarrow> error + string" where
  "turnLine h =
     (case parts h of
        [] \<Rightarrow> Inl TypeError
      | p # _ \<Rightarrow> Inr (toUpperCase (role h) @ '': '' @ p))"

fun turnLines :: "Turn list \<Rightarrow> error + string list" where
  "turnLines [] = Inr []"
| "turnLines (h # hs) =
     (case turnLine h of
        Inl e \<Rightarrow> Inl e
      | Inr l \<Rightarrow> (case turnLines hs of Inl e \<Rightarrow> Inl e | Inr ls \<Rightarrow> Inr (l # ls)))"

text \<open>\<^verbatim>\<open>history.map(h => ...).join('\n')\<close>, as both the compactor and the runner write it.\<close>

definition historyText :: "Turn list \<Rightarrow> error + string" where
  "historyText history =
     (case turnLines history of
        Inl e \<Rightarrow> Inl e
      | Inr ls \<Rightarrow> Inr (join ''\<newline>'' ls))"

definition compactHistory :: "collab \<Rightarrow> Turn list \<Rightarrow> world \<Rightarrow> (error + string) \<times> world" where
  "compactHistory c history w =
     (if length history = 0 then (Inr [], w)
      else
        (case historyText history of
           Inl e \<Rightarrow> (Inl e, w)
         | Inr transcript \<Rightarrow>
             (let w1 = send (SummaryRequest transcript) w
              in case summaryReply c (events w1) of
                   Inl e \<Rightarrow> (Inl e, w1)
                 | Inr t \<Rightarrow> (Inr (text_or t []), w1))))"

text \<open>The object the \<^verbatim>\<open>catch\<close> block of \<^verbatim>\<open>evaluateResponse\<close> returns.\<close>

definition evaluation_unavailable :: EvaluationResult where
  "evaluation_unavailable =
     \<lparr>score = 8, feedback = ''Evaluation service unavailable.'', latencyMs = 0, tokenCost = 0\<rparr>"

definition evaluateResponse ::
  "collab \<Rightarrow> string \<Rightarrow> string \<Rightarrow> world \<Rightarrow> (error + EvaluationResult) \<times> world" where
  "evaluateResponse c query result w =
     (case Date_now c w of (start, w1) \<Rightarrow>
        (let w2 = send (ScoreRequest query result) w1
         in case scoreReply c (events w2) of
              Parsed (s, f) \<Rightarrow>
                (case Date_now c w2 of (t, w3) \<Rightarrow>
                   (Inr \<lparr>score = s, feedback = f, latencyMs = t - start,
                         tokenCost = length result div 4\<rparr>, w3))
            | _ \<Rightarrow> (Inr evaluation_unavailable, w2)))"

text \<open>
  \<^verbatim>\<open>planExecution\<close> records the planning latency once the call has returned, before it
  parses the text.
\<close>

definition planExecution :: "collab \<Rightarrow> string \<Rightarrow> world \<Rightarrow> (error + AgentPlan) \<times> world" where
  "planExecution c prompt w =
     (case Date_now c w of (start, w1) \<Rightarrow>
        (let w2 = send (PlanRequest prompt) w1
         in case planReply c (events w2) of
              Failed e \<Rightarrow> (Inl e, w2)
            | Unparsable \<Rightarrow> (Inl SyntaxError, recordLatency c ''PlanningLatency'' start w2)
            | Parsed p \<Rightarrow> (Inr p, recordLatency c ''PlanningLatency'' start w2)))"

section \<open>The runner\<close>

text \<open>
  What \<^verbatim>\<open>runMultiAgentSystem\<close> returns: on the pause path the object literal of the
  sequential branch (its \<^verbatim>\<open>reasoning\<close> is \<open>pauseReasoning\<close> here), at the end the parsed
  synthesis spread under \<^verbatim>\<open>activeAgents\<close>, \<^verbatim>\<open>executionMode\<close>, \<^verbatim>\<open>evaluation\<close> and
  \<^verbatim>\<open>metrics\<close>. A key an object lacks is \<open>None\<close>.
\<close>

record WorkflowResult =
  response :: string
  sentiment :: Sentiment
  executionMode :: ExecutionMode
  activeAgents :: "AgentDomain list"
  pausedState :: "PausedState option"
  pauseReasoning :: "string option"
  crossDomainInsight :: "string option"
  suggestedAction :: "string option"
  toolCalls :: "string list option"
  chartData :: "ChartDataPoints option"
  evaluation :: "EvaluationResult option"
  metrics :: "AgentMetric list option"

text \<open>\<^verbatim>\<open>agentOutputs[k] = v\<close>: an existing key keeps its place, a new one goes last.\<close>

fun assign :: "'k \<Rightarrow> 'v \<Rightarrow> ('k \<times> 'v) list \<Rightarrow> ('k \<times> 'v) list" where
  "assign k v [] = [(k, v)]"
| "assign k v ((k', v') # kvs) =
     (if k = k' then (k, v) # kvs else (k', v') # assign k v kvs)"

text \<open>A template literal prints \<^verbatim>\<open>undefined\<close> for an absent value.\<close>

definition interpolate :: "string option \<Rightarrow> string" where
  "interpolate v = (case v of None \<Rightarrow> ''undefined'' | Some s \<Rightarrow> s)"

text \<open>
  How the execution phase ends: by the \<^verbatim>\<open>return\<close> of the pause path, or by going on to
  synthesis with the agent outputs and the tool usage log.
\<close>

datatype dispatch = Return WorkflowResult | Continue AgentOutputs "string list"

text \<open>The \<^verbatim>\<open>for\<close> loop of the sequential branch, at index \<open>i\<close>.\<close>

function sequentialLoop ::
  "collab \<Rightarrow> AgentPlan \<Rightarrow> string \<Rightarrow> nat \<Rightarrow> string \<Rightarrow> AgentOutputs \<Rightarrow> string list \<Rightarrow> world
     \<Rightarrow> (error + dispatch) \<times> world" where
  "sequentialLoop c pl language i acc outs usageLog w =
     (if i < length (steps pl) then
        (let step = steps pl ! i
         in case executeAgent c (agent step) (instruction step) acc language w of
              (Inl e, w1) \<Rightarrow> (Inl e, w1)
            | (Inr result, w1) \<Rightarrow>
                if isPaused result then
                  (Inr (Return
                     \<lparr>response = ''Workflow Paused: '' @ interpolate (pauseReason result),
                      sentiment = NEUTRAL,
                      executionMode = PAUSED,
                      activeAgents = [agent step],
                      pausedState = Some
                        \<lparr>plan = pl,
                         stepIndex = i + 1,
                         accumulatedContext =
                           acc @ ''\<newline>[Paused Step '' @ domain_str (agent step) @ '']: ''
                               @ resultText result,
                         agentOutputs = outs\<rparr>,
                      pauseReasoning = pauseReason result,
                      crossDomainInsight = None, suggestedAction = None, toolCalls = None,
                      chartData = None, evaluation = None, metrics = None\<rparr>), w1)
                else
                  sequentialLoop c pl language (Suc i)
                    (acc @ ''\<newline>[Output from '' @ domain_str (agent step) @ '']: ''
                         @ resultText result)
                    (assign (agent step) (resultText result) outs)
                    (usageLog @ toolUsage result) w1)
      else (Inr (Continue outs usageLog), w))"
  by pat_completeness auto
termination
  by (relation "measure (\<lambda>(c, pl, language, i, acc, outs, usageLog, w). length (steps pl) - i)") auto

text \<open>
  The parallel branch starts one executor per step and awaits them all with
  \<^verbatim>\<open>Promise.all\<close>, which rejects when one of them does. The model runs the executors to
  completion one after the other, in plan order: one of the possible schedules.
\<close>

fun spawnAll ::
  "collab \<Rightarrow> string \<Rightarrow> string \<Rightarrow> AgentStep list \<Rightarrow> world
     \<Rightarrow> (error + (AgentDomain \<times> AgentExecutionResult) list) \<times> world" where
  "spawnAll c acc language [] w = (Inr [], w)"
| "spawnAll c acc language (step # rest) w =
     (case executeAgent c (agent step) (instruction step) acc language w of
        (Inl e, w1) \<Rightarrow> (Inl e, w1)
      | (Inr res, w1) \<Rightarrow>
          (case spawnAll c acc language rest w1 of
             (Inl e, w2) \<Rightarrow> (Inl e, w2)
           | (Inr rs, w2) \<Rightarrow> (Inr ((agent step, res) # rs), w2)))"

text \<open>The \<^verbatim>\<open>results.forEach\<close> of the parallel branch.\<close>

fun mergeResults ::
  "(AgentDomain \<times> AgentExecutionResult) list \<Rightarrow> AgentOutputs \<Rightarrow> string list
     \<Rightarrow> AgentOutputs \<times> string list" where
  "mergeResults [] outs usageLog = (outs, usageLog)"
| "mergeResults ((a, res) # rs) outs usageLog =
     mergeResults rs (assign a (resultText res) outs) (usageLog @ toolUsage res)"

text \<open>The refinement loop: draft, critique, refinement.\<close>

definition refinementLoop ::
  "collab \<Rightarrow> AgentPlan \<Rightarrow> string \<Rightarrow> string \<Rightarrow> AgentOutputs \<Rightarrow> string list \<Rightarrow> world
     \<Rightarrow> (error + dispatch) \<times> world" where
  "refinementLoop c pl language acc outs usageLog w =
     (case steps pl of
        [] \<Rightarrow> (Inl TypeError, w)
      | step0 # _ \<Rightarrow>
          (case executeAgent c (agent step0) (instruction step0) acc language w of
             (Inl e, w1) \<Rightarrow> (Inl e, w1)
           | (Inr draft, w1) \<Rightarrow>
               (case executeAgent c ORCHESTRATOR (''Critique: '' @ resultText draft) [] language w1 of
                  (Inl e, w2) \<Rightarrow> (Inl e, w2)
                | (Inr critic, w2) \<Rightarrow>
                    (case executeAgent c (agent step0) (''Refine based on: '' @ resultText critic)
                            (''Draft: '' @ resultText draft) language w2 of
                       (Inl e, w3) \<Rightarrow> (Inl e, w3)
                     | (Inr refined, w3) \<Rightarrow>
                         (Inr (Continue (assign (agent step0) (resultText refined) outs) usageLog),
                          w3)))))"

text \<open>The last branch, \<^verbatim>\<open>// DIRECT\<close>.\<close>

definition directCall ::
  "collab \<Rightarrow> AgentPlan \<Rightarrow> string \<Rightarrow> string \<Rightarrow> AgentOutputs \<Rightarrow> string list \<Rightarrow> world
     \<Rightarrow> (error + dispatch) \<times> world" where
  "directCall c pl language acc outs usageLog w =
     (case steps pl of
        [] \<Rightarrow> (Inl TypeError, w)
      | step0 # _ \<Rightarrow>
          (case executeAgent c (agent step0) (instruction step0) acc language w of
             (Inl e, w1) \<Rightarrow> (Inl e, w1)
           | (Inr result, w1) \<Rightarrow>
               (Inr (Continue (assign (agent step0) (resultText result) outs)
                       (usageLog @ toolUsage result)), w1)))"

text \<open>
  Phase 2, the chain of \<^verbatim>\<open>if\<close>/\<^verbatim>\<open>else if\<close> on \<^verbatim>\<open>plan.mode\<close> and \<^verbatim>\<open>resumeState\<close>. The
  tool usage log is the empty array \<^verbatim>\<open>toolUsageLog\<close> was declared with.
\<close>

definition executionPhase ::
  "collab \<Rightarrow> AgentPlan \<Rightarrow> PausedState option \<Rightarrow> string \<Rightarrow> AgentOutputs \<Rightarrow> nat \<Rightarrow> string \<Rightarrow> world
     \<Rightarrow> (error + dispatch) \<times> world" where
  "executionPhase c pl resumeState acc outs startStepIndex language w =
     (if mode pl = PARALLEL \<and> resumeState = None then
        (case spawnAll c acc language (steps pl) w of
           (Inl e, w1) \<Rightarrow> (Inl e, w1)
         | (Inr results, w1) \<Rightarrow>
             (case mergeResults results outs [] of
                (outs', usageLog) \<Rightarrow> (Inr (Continue outs' usageLog), w1)))
      else if mode pl = SEQUENTIAL then
        sequentialLoop c pl language startStepIndex acc outs [] w
      else if mode pl = LOOP \<and> resumeState = None then
        refinementLoop c pl language acc outs [] w
      else if resumeState = None then
        directCall c pl language acc outs [] w
      else (Inr (Continue outs []), w))"

text \<open>
  \<^verbatim>\<open>Object.entries(agentOutputs).map(([agent, out]) => `${agent} Output: ${out}`).join('\n\n')\<close>.
\<close>

definition outputsText :: "AgentOutputs \<Rightarrow> string" where
  "outputsText outs =
     join ''\<newline>\<newline>'' (map (\<lambda>(a, out). domain_str a @ '' Output: '' @ out) outs)"

text \<open>Phases 3 and 4: synthesis, evaluation and the final object.\<close>

definition synthesisPhase ::
  "collab \<Rightarrow> string \<Rightarrow> string \<Rightarrow> string \<Rightarrow> bool \<Rightarrow> AgentPlan \<Rightarrow> AgentOutputs \<Rightarrow> string list \<Rightarrow> int
     \<Rightarrow> world \<Rightarrow> (error + WorkflowResult) \<times> world" where
  "synthesisPhase c prompt contextSummary language thinking pl outs usageLog overallStart w =
     (let w1 = send (SynthRequest
                  \<lparr>useThinking = thinking,
                   originalQuery = prompt,
                   synthesisContext = outputsText outs,
                   historyContext = contextSummary,
                   memoryContext = getFormattedContext (memoryBank w),
                   toolsUsed = join '', '' usageLog,
                   responseLanguage = language\<rparr>) w
      in case synthReply c (events w1) of
           Failed e \<Rightarrow> (Inl e, w1)
         | Unparsable \<Rightarrow> (Inl SyntaxError, w1)
         | Parsed parsed \<Rightarrow>
             (case evaluateResponse c prompt (parsed_response parsed) w1 of
                (Inl e, w2) \<Rightarrow> (Inl e, w2)
              | (Inr evalResult, w2) \<Rightarrow>
                  (let w3 = recordLatency c ''TotalLatency'' overallStart w2
                   in (Inr \<lparr>response = parsed_response parsed,
                             sentiment = parsed_sentiment parsed,
                             executionMode = mode pl,
                             activeAgents = map agent (steps pl),
                             pausedState = None,
                             pauseReasoning = None,
                             crossDomainInsight = parsed_crossDomainInsight parsed,
                             suggestedAction = parsed_suggestedAction parsed,
                             toolCalls = parsed_toolCalls parsed,
                             chartData = parsed_chartData parsed,
                             evaluation = Some evalResult,
                             metrics = Some (getRecentMetrics_default (traceService w3))\<rparr>,
                       w3))))"

text \<open>
  The compaction step before phase 1: only a fresh run with prior turns compacts, beyond
  6 turns by a summarization call, else by the transcript itself.
\<close>

definition contextCompaction ::
  "collab \<Rightarrow> Turn list \<Rightarrow> PausedState option \<Rightarrow> world \<Rightarrow> (error + string) \<times> world" where
  "contextCompaction c history resumeState w =
     (if resumeState = None \<and> length history > 0 then
        (if length history > 6 then compactHistory c history w
         else (historyText history, w))
      else (Inr [], w))"

definition fullPlanningContext :: "string \<Rightarrow> string \<Rightarrow> string \<Rightarrow> string" where
  "fullPlanningContext contextSummary prompt memoryCtx =
     ''\<newline>      Previous Conversation Summary/History:''
     @ ''\<newline>      '' @ contextSummary
     @ ''\<newline>      ''
     @ ''\<newline>      Current Request: '' @ prompt
     @ ''\<newline>      ''
     @ ''\<newline>      User Profile:''
     @ ''\<newline>      '' @ memoryCtx
     @ ''\<newline>    ''"

text \<open>The plan of the \<^verbatim>\<open>catch\<close> block around \<^verbatim>\<open>planExecution\<close>.\<close>

definition fallbackPlan :: "string \<Rightarrow> AgentPlan" where
  "fallbackPlan prompt =
     \<lparr>mode = DIRECT, steps = [\<lparr>agent = ORCHESTRATOR, instruction = prompt\<rparr>],
      reasoning = ''Fallback.''\<rparr>"

text \<open>
  Phase 1: restoring the plan, the context, the outputs and the step index from the
  paused state, or planning. It yields those four.
\<close>

definition planningPhase ::
  "collab \<Rightarrow> string \<Rightarrow> string \<Rightarrow> PausedState option \<Rightarrow> world
     \<Rightarrow> (error + AgentPlan \<times> string \<times> AgentOutputs \<times> nat) \<times> world" where
  "planningPhase c prompt contextSummary resumeState w =
     (case resumeState of
        Some st \<Rightarrow>
          (Inr (plan st, accumulatedContext st, agentOutputs st, stepIndex st), w)
      | None \<Rightarrow>
          (let memoryCtx = getFormattedContext (memoryBank w);
               acc = ''User Query: '' @ prompt @ ''\<newline>Session ID: '' @ sessionService w
                     @ ''\<newline>History Context: '' @ contextSummary @ ''\<newline>'' @ memoryCtx
           in case planExecution c (fullPlanningContext contextSummary prompt memoryCtx) w of
                (Inl e, w1) \<Rightarrow> (Inr (fallbackPlan prompt, acc, [], 0), w1)
              | (Inr p, w1) \<Rightarrow> (Inr (p, acc, [], 0), w1)))"

definition runMultiAgentSystem ::
  "collab \<Rightarrow> string \<Rightarrow> Turn list \<Rightarrow> string \<Rightarrow> string \<Rightarrow> bool \<Rightarrow> PausedState option \<Rightarrow> world
     \<Rightarrow> (error + WorkflowResult) \<times> world" where
  "runMultiAgentSystem c prompt history apiKey language thinking resumeState w =
     (if apiKey = [] then (Inl ApiKeyRequired, w)
      else
        (case Date_now c w of (overallStart, w0) \<Rightarrow>
           (case contextCompaction c history resumeState w0 of
              (Inl e, w1) \<Rightarrow> (Inl e, w1)
            | (Inr contextSummary, w1) \<Rightarrow>
                (case planningPhase c prompt contextSummary resumeState w1 of
                   (Inl e, w2) \<Rightarrow> (Inl e, w2)
                 | (Inr (pl, acc, outs, startStepIndex), w2) \<Rightarrow>
                     (case executionPhase c pl resumeState acc outs startStepIndex language w2 of
                        (Inl e, w3) \<Rightarrow> (Inl e, w3)
                      | (Inr (Return paused), w3) \<Rightarrow> (Inr paused, w3)
                      | (Inr (Continue outs' usageLog), w3) \<Rightarrow>
                          synthesisPhase c prompt contextSummary language thinking pl outs'
                            usageLog overallStart w3)))))"

section \<open>Observing a run\<close>

text \<open>The kinds of requests.\<close>

fun is_chat :: "event \<Rightarrow> bool" where
  "is_chat (ChatCreate _ _ _ _) = True"
| "is_chat (ChatSend _ _) = True"
| "is_chat _ = False"

fun is_summary :: "event \<Rightarrow> bool" where
  "is_summary (SummaryRequest _) = True"
| "is_summary _ = False"

fun is_plan :: "event \<Rightarrow> bool" where
  "is_plan (PlanRequest _) = True"
| "is_plan _ = False"

fun is_synthesis :: "event \<Rightarrow> bool" where
  "is_synthesis (SynthRequest _) = True"
| "is_synthesis _ = False"

fun is_score :: "event \<Rightarrow> bool" where
  "is_score (ScoreRequest _ _) = True"
| "is_score _ = False"

text \<open>
  \<open>extends P w w'\<close>: from \<open>w\<close> to \<open>w'\<close> requests were only added, all of kind \<open>P\<close>.
\<close>

definition extends :: "(event \<Rightarrow> bool) \<Rightarrow> world \<Rightarrow> world \<Rightarrow> bool" where
  "extends P w w' =
     (take (length (events w)) (events w') = events w
      \<and> list_all P (drop (length (events w)) (events w')))"

text \<open>
  The names of the calls resolved so far: one for each function response sent into a
  session.
\<close>

fun resolvedTools :: "event list \<Rightarrow> string list" where
  "resolvedTools [] = []"
| "resolvedTools (ChatSend a (FunctionResponseMsg n fr) # es) = n # resolvedTools es"
| "resolvedTools (e # es) = resolvedTools es"

text \<open>
  A response that carries a call of one of the two client tools, \<^verbatim>\<open>fetchMedicalRecords\<close>
  or \<^verbatim>\<open>updateMemory\<close>, as the first of its function calls. The call is a part of the
  first candidate, so the candidates of such a response are not an empty array.
\<close>

definition carriesClientCall :: "GenerateContentResponse \<Rightarrow> bool" where
  "carriesClientCall r =
     (candidates r \<noteq> Some [] \<and>
      (case functionCalls r of
         Some (call # _) \<Rightarrow> callName call = ''fetchMedicalRecords'' \<or> callName call = ''updateMemory''
       | _ \<Rightarrow> False))"

text \<open>
  The verbatim transcript of the prior turns: one line \<^verbatim>\<open>ROLE: text\<close> for each turn, its
  role in upper case and the text of its first part, the lines joined by newlines.
\<close>

definition verbatimTranscript :: "Turn list \<Rightarrow> string" where
  "verbatimTranscript history =
     join ''\<newline>'' (map (\<lambda>h. toUpperCase (role h) @ '': '' @ hd (parts h)) history)"

section \<open>Example data\<close>

definition example_metric :: AgentMetric where
  "example_metric = \<lparr>metricName = ''TotalLatency'', metricValue = 12, metricUnit = ''ms'', timestamp = 1000\<rparr>"

definition example_context :: UserContext where
  "example_context =
     \<lparr>name = ''User'', location = ''Unknown'', healthConditions = [], learningGoals = [],
      ecoPreferences = [], notes = [], lastInteraction = 0\<rparr>"

definition duplicated_context :: UserContext where
  "duplicated_context = example_context\<lparr>notes := [''a'', ''a'']\<rparr>"

definition clock_collab :: collab where
  "clock_collab =
     \<lparr>now = (\<lambda>k. 1000 + int k),
      summaryReply = (\<lambda>tr. Inl (ServiceError ''offline'')),
      planReply = (\<lambda>tr. Failed (ServiceError ''offline'')),
      chatReply = (\<lambda>tr. Inl (ServiceError ''offline'')),
      synthReply = (\<lambda>tr. Failed (ServiceError ''offline'')),
      scoreReply = (\<lambda>tr. Failed (ServiceError ''offline''))\<rparr>"

definition example_world :: world where
  "example_world =
     \<lparr>memoryBank = example_context, traceService = [], sessionService = ''sess_1'',
      ticks = 0, events = []\<rparr>"

definition profile_args :: CallArgs where
  "profile_args = \<lparr>reason = [], patientId = [], category = ''profile'', item = ''Ada''\<rparr>"

definition fetch_call :: FunctionCall where
  "fetch_call =
     \<lparr>callName = ''fetchMedicalRecords'',
      args = \<lparr>reason = [], patientId = ''p1'', category = [], item = []\<rparr>\<rparr>"

definition fetching_collab :: collab where
  "fetching_collab =
     clock_collab\<lparr>chatReply := (\<lambda>tr. Inr \<lparr>responseText = None,
        functionCalls = Some [fetch_call], candidates = None\<rparr>)\<rparr>"

definition text_response :: GenerateContentResponse where
  "text_response =
     \<lparr>responseText = Some ''Done'', functionCalls = None,
      candidates = Some [\<lparr>groundingMetadata = True, executableCode = True\<rparr>]\<rparr>"

definition pause_response :: GenerateContentResponse where
  "pause_response =
     \<lparr>responseText = None,
      functionCalls = Some [\<lparr>callName = ''pauseWorkflow'',
        args = \<lparr>reason = ''wait'', patientId = [], category = [], item = []\<rparr>\<rparr>],
      candidates = None\<rparr>"

definition final_example :: FinalResponse where
  "final_example =
     \<lparr>parsed_response = ''All good.'', parsed_sentiment = POSITIVE,
      parsed_crossDomainInsight = None, parsed_suggestedAction = None,
      parsed_toolCalls = None, parsed_chartData = None\<rparr>"

definition answering_collab :: collab where
  "answering_collab =
     clock_collab
       \<lparr>chatReply := (\<lambda>tr. case last tr of
                          ChatSend EDUCATION m \<Rightarrow> Inr pause_response
                        | _ \<Rightarrow> Inr text_response),
        synthReply := (\<lambda>tr. Parsed final_example),
        scoreReply := (\<lambda>tr. Parsed (9, ''Good.''))\<rparr>"

definition sequential_plan :: AgentPlan where
  "sequential_plan =
     \<lparr>mode = SEQUENTIAL,
      steps = [\<lparr>agent = HEALTH, instruction = ''a''\<rparr>, \<lparr>agent = EDUCATION, instruction = ''b''\<rparr>],
      reasoning = ''Two steps.''\<rparr>"

definition sequential_state :: PausedState where
  "sequential_state =
     \<lparr>plan = sequential_plan, stepIndex = 0, accumulatedContext = ''ctx'', agentOutputs = []\<rparr>"

definition parallel_state :: PausedState where
  "parallel_state =
     \<lparr>plan = \<lparr>mode = PARALLEL,
              steps = [\<lparr>agent = HEALTH, instruction = ''a''\<rparr>,
                       \<lparr>agent = EDUCATION, instruction = ''b''\<rparr>],
              reasoning = ''Independent tasks.''\<rparr>,
      stepIndex = 1, accumulatedContext = ''ctx'', agentOutputs = [(HEALTH, ''Rest.'')]\<rparr>"

definition loop_plan :: AgentPlan where
  "loop_plan =
     \<lparr>mode = LOOP, steps = [\<lparr>agent = HEALTH, instruction = ''Draft a plan''\<rparr>],
      reasoning = ''Refinement.''\<rparr>"

definition looping_collab :: collab where
  "looping_collab = answering_collab\<lparr>planReply := (\<lambda>tr. Parsed loop_plan)\<rparr>"

definition summarizing_collab :: collab where
  "summarizing_collab = clock_collab\<lparr>summaryReply := (\<lambda>tr. Inr (Some ''Summary''))\<rparr>"

definition hi_turn :: Turn where
  "hi_turn = \<lparr>role = ''user'', parts = [''hi'']\<rparr>"

definition hello_turn :: Turn where
  "hello_turn = \<lparr>role = ''model'', parts = [''hello'', ''again'']\<rparr>"

section \<open>Properties of the TraceService\<close>

lemma slice_negative: "start < 0 \<Longrightarrow> slice start xs = drop (length xs - nat (- start)) xs"
  by (auto simp: slice_def Let_def max_def nat_diff_distrib' intro: arg_cong [where f = "\<lambda>k. drop k xs"])

lemma getRecentMetrics_positive:
  "0 < n \<Longrightarrow> getRecentMetrics n ms = drop (length ms - nat n) ms"
  by (simp add: getRecentMetrics_def slice_negative)

lemma getRecentMetrics_clear: "getRecentMetrics n (clear ms) = []"
  by (simp add: getRecentMetrics_def slice_def clear_def Let_def)

text \<open>
  Claim C9. \<^verbatim>\<open>getRecentMetrics(n)\<close> is to return the last \<open>n\<close> recorded metrics. For
  \<open>n = 0\<close> that is the empty list, but \<^verbatim>\<open>slice(-0)\<close> is \<^verbatim>\<open>slice(0)\<close>: with one metric
  recorded, \<^verbatim>\<open>getRecentMetrics(0)\<close> returns that metric.
\<close>

theorem getRecentMetrics_zero_returns_all:
  "getRecentMetrics 0 (recordMetric ''TotalLatency'' 12 ''ms'' 1000 (clear ms)) = [example_metric]"
  by (simp add: getRecentMetrics_def slice_def recordMetric_def clear_def example_metric_def)

section \<open>Requests are only added\<close>

declare toolLoop.simps [simp del]
declare sequentialLoop.simps [simp del]

lemma extends_iff: "extends P w w' \<longleftrightarrow> (\<exists>new. events w' = events w @ new \<and> list_all P new)"
proof
  assume "extends P w w'"
  then have "events w' = events w @ drop (length (events w)) (events w')"
    and "list_all P (drop (length (events w)) (events w'))"
    by (simp_all add: extends_def) (metis append_take_drop_id)
  then show "\<exists>new. events w' = events w @ new \<and> list_all P new" by blast
next
  assume "\<exists>new. events w' = events w @ new \<and> list_all P new"
  then show "extends P w w'" by (auto simp: extends_def)
qed

lemma extends_refl: "extends P w w"
  by (simp add: extends_iff)

lemma extends_trans: "extends P w w1 \<Longrightarrow> extends P w1 w2 \<Longrightarrow> extends P w w2"
  by (auto simp: extends_iff)

lemma extends_send: "P e \<Longrightarrow> extends P w (send e w)"
  by (simp add: extends_iff send_def)

lemma extends_same: "events w' = events w \<Longrightarrow> extends P w w'"
  by (simp add: extends_iff)

lemma events_Date_now [simp]: "events (snd (Date_now c w)) = events w"
  by (simp add: Date_now_def)

lemma events_traceService_recordMetric [simp]: "events (traceService_recordMetric c n v u w) = events w"
  by (simp add: traceService_recordMetric_def Date_now_def)

lemma events_recordLatency [simp]: "events (recordLatency c n s w) = events w"
  by (simp add: recordLatency_def Date_now_def)

lemma events_updateMemory [simp]: "events (updateMemory c a w) = events w"
  by (simp add: updateMemory_def Date_now_def)

lemma clientTool_events: "clientTool c call w = Some (fr, w1) \<Longrightarrow> events w1 = events w"
  by (auto simp: clientTool_def split: if_splits)

lemma extends_mono: "extends P w w' \<Longrightarrow> (\<And>e. P e \<Longrightarrow> Q e) \<Longrightarrow> extends Q w w'"
  by (auto simp: extends_iff list_all_iff)

lemma extends_filter:
  "extends P w w' \<Longrightarrow> (\<And>e. P e \<Longrightarrow> \<not> Q e) \<Longrightarrow> filter Q (events w') = filter Q (events w)"
  by (auto simp: extends_iff list_all_iff filter_empty_conv)

lemma extends_events: "extends P w w' \<Longrightarrow> events w'' = events w' \<Longrightarrow> extends P w w''"
  by (simp add: extends_iff)

lemma toolLoop_extends: "extends is_chat w (snd (toolLoop c a resp turns usage w))"
proof (induction c a resp turns usage w rule: toolLoop.induct)
  case (1 c a resp turns usage w)
  show ?case
  proof (cases "functionCalls resp")
    case None
    then show ?thesis by (simp add: toolLoop.simps [of c a resp] extends_refl)
  next
    case (Some calls)
    show ?thesis
    proof (cases calls)
      case Nil
      with Some show ?thesis by (simp add: toolLoop.simps [of c a resp] extends_refl)
    next
      case (Cons call rest)
      note fc = Some Cons
      show ?thesis
      proof (cases "turns < 5 \<and> callName call \<noteq> ''pauseWorkflow''")
        case False
        with fc show ?thesis by (auto simp: toolLoop.simps [of c a resp] extends_refl)
      next
        case True
        show ?thesis
        proof (cases "clientTool c call w")
          case None
          with fc True show ?thesis by (simp add: toolLoop.simps [of c a resp] extends_refl)
        next
          case (Some p)
          obtain fr w1 where p: "p = (fr, w1)" by (cases p)
          let ?w2 = "send (ChatSend a (FunctionResponseMsg (callName call) fr)) w1"
          have e1: "extends is_chat w ?w2"
            using clientTool_events [OF Some [unfolded p]]
            by (simp add: extends_iff send_def)
          show ?thesis
          proof (cases "chatReply c (events ?w2)")
            case (Inl e)
            with fc True Some p e1 show ?thesis
              by (simp add: toolLoop.simps [of c a resp] Let_def)
          next
            case (Inr resp')
            have "extends is_chat ?w2 (snd (toolLoop c a resp' (Suc turns) (usage @ [callName call]) ?w2))"
              using "1.IH" [OF fc(1) fc(2) _ _ Some [unfolded p] refl refl Inr] True by simp
            with e1 fc True Some p Inr show ?thesis
              by (simp add: toolLoop.simps [of c a resp] Let_def extends_trans)
          qed
        qed
      qed
    qed
  qed
qed


lemma executeAgent_extends: "extends is_chat w (snd (executeAgent c a instr ctx language w))"
proof -
  let ?w1 = "w\<lparr>ticks := Suc (ticks w)\<rparr>"
  let ?w2 = "send (ChatCreate a ctx language (getFormattedContext (memoryBank ?w1))) ?w1"
  let ?w3 = "send (ChatSend a (Instruction instr)) ?w2"
  have e3: "extends is_chat w ?w3"
    by (simp add: extends_iff send_def)
  show ?thesis
  proof (cases "chatReply c (events ?w3)")
    case (Inl e)
    then have "snd (executeAgent c a instr ctx language w) = ?w3"
      by (simp add: executeAgent_def Date_now_def Let_def)
    with e3 show ?thesis by simp
  next
    case (Inr r)
    show ?thesis
    proof (cases "hasGrounding r")
      case (Inl e)
      with Inr have "snd (executeAgent c a instr ctx language w) = ?w3"
        by (simp add: executeAgent_def Date_now_def Let_def)
      with e3 show ?thesis by simp
    next
      case g: (Inr grounded)
      let ?u = "(if grounded then [''googleSearch''] else []) @ (if codePart r then [''codeExecution''] else [])"
      obtain res w4 where tl: "toolLoop c a r 0 ?u ?w3 = (res, w4)"
        by (cases "toolLoop c a r 0 ?u ?w3")
      have e4: "extends is_chat w w4"
        using extends_trans [OF e3 toolLoop_extends [of ?w3 c a r 0 ?u]] tl by simp
      have "events (snd (executeAgent c a instr ctx language w)) = events w4"
        using Inr g tl
        by (cases res) (simp_all add: executeAgent_def Date_now_def Let_def split: loop_exit.splits)
      with e4 show ?thesis by (simp add: extends_iff)
    qed
  qed
qed

lemma sequentialLoop_extends:
  "extends is_chat w (snd (sequentialLoop c pl language i acc outs usageLog w))"
proof (induction "length (steps pl) - i" arbitrary: i acc outs usageLog w)
  case 0
  then show ?case by (simp add: sequentialLoop.simps [of c pl language i] extends_refl)
next
  case (Suc n)
  then have lt: "i < length (steps pl)" by simp
  let ?step = "steps pl ! i"
  obtain res w1 where ex: "executeAgent c (agent ?step) (instruction ?step) acc language w = (res, w1)"
    by (cases "executeAgent c (agent ?step) (instruction ?step) acc language w")
  have e1: "extends is_chat w w1"
    using executeAgent_extends [of w c "agent ?step" "instruction ?step" acc language] ex by simp
  show ?case
  proof (cases res)
    case (Inl e)
    with lt ex e1 show ?thesis by (simp add: sequentialLoop.simps [of c pl language i] Let_def)
  next
    case (Inr result)
    show ?thesis
    proof (cases "isPaused result")
      case True
      with Inr lt ex e1 show ?thesis by (simp add: sequentialLoop.simps [of c pl language i] Let_def)
    next
      case False
      have "n = length (steps pl) - Suc i" using Suc.hyps(2) by simp
      from Suc.hyps(1) [OF this] extends_trans [OF e1]
      show ?thesis
        using False Inr lt ex by (simp add: sequentialLoop.simps [of c pl language i] Let_def)
    qed
  qed
qed

lemma spawnAll_extends: "extends is_chat w (snd (spawnAll c acc language sts w))"
proof (induction sts arbitrary: w)
  case Nil
  show ?case by (simp add: extends_refl)
next
  case (Cons step rest)
  obtain res w1 where ex: "executeAgent c (agent step) (instruction step) acc language w = (res, w1)"
    by (cases "executeAgent c (agent step) (instruction step) acc language w")
  have e1: "extends is_chat w w1"
    using executeAgent_extends [of w c "agent step" "instruction step" acc language] ex by simp
  show ?case
  proof (cases res)
    case (Inl e)
    with ex e1 show ?thesis by simp
  next
    case (Inr result)
    obtain rs w2 where sp: "spawnAll c acc language rest w1 = (rs, w2)"
      by (cases "spawnAll c acc language rest w1")
    have "extends is_chat w1 w2" using Cons.IH [of w1] sp by simp
    with e1 have "extends is_chat w w2" by (rule extends_trans)
    with Inr ex sp show ?thesis by (cases rs) simp_all
  qed
qed


lemma evaluateResponse_extends: "extends is_score w (snd (evaluateResponse c query result w))"
  by (simp add: evaluateResponse_def Date_now_def Let_def extends_iff send_def
        split: generated.splits prod.splits)

lemma evaluateResponse_Inr: "\<exists>ev. fst (evaluateResponse c query result w) = Inr ev"
  by (simp add: evaluateResponse_def Date_now_def Let_def split: generated.splits prod.splits)

lemma compactHistory_extends: "extends is_summary w (snd (compactHistory c history w))"
  by (simp add: compactHistory_def Let_def extends_iff send_def split: sum.splits)

lemma contextCompaction_extends:
  "extends is_summary w (snd (contextCompaction c history resumeState w))"
  by (simp add: contextCompaction_def compactHistory_extends extends_refl)

lemma planExecution_extends: "extends is_plan w (snd (planExecution c p w))"
  by (simp add: planExecution_def Date_now_def Let_def extends_iff send_def split: generated.splits)

lemma planningPhase_extends:
  "extends is_plan w (snd (planningPhase c prompt summary resumeState w))"
proof (cases resumeState)
  case None
  let ?p = "fullPlanningContext summary prompt (getFormattedContext (memoryBank w))"
  obtain res w1 where pe: "planExecution c ?p w = (res, w1)"
    by (cases "planExecution c ?p w")
  have "extends is_plan w w1" using planExecution_extends [of w c ?p] pe by simp
  with None pe show ?thesis by (cases res) (simp_all add: planningPhase_def Let_def)
next
  case (Some st)
  then show ?thesis by (simp add: planningPhase_def extends_refl)
qed

lemma refinementLoop_extends:
  "extends is_chat w (snd (refinementLoop c pl language acc outs usageLog w))"
proof (cases "steps pl")
  case Nil
  then show ?thesis by (simp add: refinementLoop_def extends_refl)
next
  case (Cons step0 rest)
  obtain r1 w1 where x1: "executeAgent c (agent step0) (instruction step0) acc language w = (r1, w1)"
    by (cases "executeAgent c (agent step0) (instruction step0) acc language w")
  have e1: "extends is_chat w w1"
    using executeAgent_extends [of w c "agent step0" "instruction step0" acc language] x1 by simp
  show ?thesis
  proof (cases r1)
    case (Inl e)
    with Cons x1 e1 show ?thesis by (simp add: refinementLoop_def)
  next
    case draft: (Inr draft)
    obtain r2 w2 where x2:
      "executeAgent c ORCHESTRATOR (''Critique: '' @ resultText draft) [] language w1 = (r2, w2)"
      by (cases "executeAgent c ORCHESTRATOR (''Critique: '' @ resultText draft) [] language w1")
    have e2: "extends is_chat w w2"
      using extends_trans [OF e1 executeAgent_extends [of w1 c ORCHESTRATOR "''Critique: '' @ resultText draft" "[]" language]] x2
      by simp
    show ?thesis
    proof (cases r2)
      case (Inl e)
      with Cons x1 draft x2 e2 show ?thesis by (simp add: refinementLoop_def)
    next
      case critic: (Inr critic)
      obtain r3 w3 where x3:
        "executeAgent c (agent step0) (''Refine based on: '' @ resultText critic)
           (''Draft: '' @ resultText draft) language w2 = (r3, w3)"
        by (cases "executeAgent c (agent step0) (''Refine based on: '' @ resultText critic)
           (''Draft: '' @ resultText draft) language w2")
      have e3: "extends is_chat w w3"
        using extends_trans [OF e2 executeAgent_extends [of w2 c "agent step0" "''Refine based on: '' @ resultText critic" "''Draft: '' @ resultText draft" language]] x3
        by simp
      with Cons x1 draft x2 critic x3 show ?thesis
        by (cases r3) (simp_all add: refinementLoop_def)
    qed
  qed
qed

lemma refinementLoop_keeps_log:
  "refinementLoop c pl language acc outs usageLog w = (Inr d, w') \<Longrightarrow> \<exists>outs'. d = Continue outs' usageLog"
  by (auto simp: refinementLoop_def split: list.splits prod.splits sum.splits)

lemma directCall_extends:
  "extends is_chat w (snd (directCall c pl language acc outs usageLog w))"
proof (cases "steps pl")
  case Nil
  then show ?thesis by (simp add: directCall_def extends_refl)
next
  case (Cons step0 rest)
  obtain r1 w1 where x1: "executeAgent c (agent step0) (instruction step0) acc language w = (r1, w1)"
    by (cases "executeAgent c (agent step0) (instruction step0) acc language w")
  have e1: "extends is_chat w w1"
    using executeAgent_extends [of w c "agent step0" "instruction step0" acc language] x1 by simp
  with Cons x1 show ?thesis by (cases r1) (simp_all add: directCall_def)
qed

lemma executionPhase_extends:
  "extends is_chat w (snd (executionPhase c pl resumeState acc outs i language w))"
proof -
  have par: "extends is_chat w
     (snd (case spawnAll c acc language (steps pl) w of
             (Inl e, w1) \<Rightarrow> (Inl e, w1)
           | (Inr results, w1) \<Rightarrow>
               (case mergeResults results outs [] of
                  (outs', usageLog) \<Rightarrow> (Inr (Continue outs' usageLog), w1))))"
    using spawnAll_extends [of w c acc language "steps pl"]
    by (auto split: prod.splits sum.splits)
  show ?thesis
    unfolding executionPhase_def
    using par sequentialLoop_extends refinementLoop_extends directCall_extends extends_refl
    by (simp del: split_paired_All)
qed

lemma synthesisPhase_events:
  "\<exists>rest. events (snd (synthesisPhase c prompt summary language thinking pl outs usageLog start w))
      = events w @ SynthRequest
          \<lparr>useThinking = thinking, originalQuery = prompt, synthesisContext = outputsText outs,
           historyContext = summary, memoryContext = getFormattedContext (memoryBank w),
           toolsUsed = join '', '' usageLog, responseLanguage = language\<rparr> # rest
     \<and> list_all is_score rest"
proof -
  let ?req = "SynthRequest
          \<lparr>useThinking = thinking, originalQuery = prompt, synthesisContext = outputsText outs,
           historyContext = summary, memoryContext = getFormattedContext (memoryBank w),
           toolsUsed = join '', '' usageLog, responseLanguage = language\<rparr>"
  let ?w1 = "send ?req w"
  have ev: "extends is_score ?w1 (snd (evaluateResponse c prompt r ?w1))" for r
    by (rule evaluateResponse_extends)
  show ?thesis
  proof (cases "synthReply c (events ?w1)")
    case (Failed e)
    then show ?thesis by (simp add: synthesisPhase_def Let_def send_def)
  next
    case Unparsable
    then show ?thesis by (simp add: synthesisPhase_def Let_def send_def)
  next
    case (Parsed parsed)
    obtain er w2 where er: "evaluateResponse c prompt (parsed_response parsed) ?w1 = (er, w2)"
      by (cases "evaluateResponse c prompt (parsed_response parsed) ?w1")
    from ev [of "parsed_response parsed"] er obtain rest where
      rest: "events w2 = events ?w1 @ rest" "list_all is_score rest"
      by (auto simp: extends_iff)
    have "events (snd (synthesisPhase c prompt summary language thinking pl outs usageLog start w))
        = events w2"
      using Parsed er by (cases er) (simp_all add: synthesisPhase_def Let_def)
    with rest show ?thesis by (simp add: send_def)
  qed
qed

lemma synthesisPhase_extends:
  "extends (\<lambda>e. is_synthesis e \<or> is_score e) w
     (snd (synthesisPhase c prompt summary language thinking pl outs usageLog start w))"
  using synthesisPhase_events [of c prompt summary language thinking pl outs usageLog start w]
  by (auto simp: extends_iff list_all_iff)

section \<open>The tool-calling loop\<close>

lemma resolvedTools_append: "resolvedTools (xs @ ys) = resolvedTools xs @ resolvedTools ys"
  by (induction xs rule: resolvedTools.induct) auto

lemma toolLoop_client_calls:
  assumes always: "\<forall>tr. \<exists>r. chatReply c tr = Inr r \<and> carriesClientCall r"
  shows "n = 5 - turns \<Longrightarrow> turns \<le> 5 \<Longrightarrow> chatReply c (events w) = Inr resp \<Longrightarrow>
     \<exists>final ns w'. toolLoop c a resp turns usage w = (Inr (LoopDone final (usage @ ns)), w')
        \<and> length ns = 5 - turns
        \<and> resolvedTools (events w') = resolvedTools (events w) @ ns
        \<and> chatReply c (events w') = Inr final"
proof (induction n arbitrary: turns w resp usage)
  case 0
  then have "turns = 5" by simp
  with 0 show ?case
    by (auto simp: toolLoop.simps [of c a resp] split: option.splits list.splits)
next
  case (Suc n)
  then have lt: "turns < 5" by simp
  from always Suc.prems(3) have cc: "carriesClientCall resp"
    by (metis sum.inject(2))
  then obtain call rest where fc: "functionCalls resp = Some (call # rest)"
    and nm: "callName call = ''fetchMedicalRecords'' \<or> callName call = ''updateMemory''"
    by (auto simp: carriesClientCall_def split: option.splits list.splits)
  from nm have np: "callName call \<noteq> ''pauseWorkflow''" by auto
  from nm obtain fr w1 where ct: "clientTool c call w = Some (fr, w1)"
    by (auto simp: clientTool_def)
  have ev1: "events w1 = events w" using ct by (rule clientTool_events)
  let ?w2 = "send (ChatSend a (FunctionResponseMsg (callName call) fr)) w1"
  from always obtain r' where r': "chatReply c (events ?w2) = Inr r'" by blast
  have "\<exists>final ns w'. toolLoop c a r' (Suc turns) (usage @ [callName call]) ?w2
          = (Inr (LoopDone final ((usage @ [callName call]) @ ns)), w')
        \<and> length ns = 5 - Suc turns
        \<and> resolvedTools (events w') = resolvedTools (events ?w2) @ ns
        \<and> chatReply c (events w') = Inr final"
    using Suc.prems lt by (intro Suc.IH [OF _ _ r']) auto
  then obtain final ns w' where
    tl: "toolLoop c a r' (Suc turns) (usage @ [callName call]) ?w2
          = (Inr (LoopDone final ((usage @ [callName call]) @ ns)), w')"
    and len: "length ns = 5 - Suc turns"
    and rt: "resolvedTools (events w') = resolvedTools (events ?w2) @ ns"
    and fin: "chatReply c (events w') = Inr final"
    by blast
  have step: "toolLoop c a resp turns usage w
      = toolLoop c a r' (Suc turns) (usage @ [callName call]) ?w2"
    using fc lt np ct r' by (simp add: toolLoop.simps [of c a resp] Let_def)
  have rt2: "resolvedTools (events ?w2) = resolvedTools (events w) @ [callName call]"
    by (simp add: send_def ev1 resolvedTools_append)
  show ?case
    apply (rule exI [where x = final])
    apply (rule exI [where x = "callName call # ns"])
    apply (rule exI [where x = w'])
    using step tl len rt fin rt2 lt by simp
qed


lemma hasGrounding_ok: "candidates r \<noteq> Some [] \<Longrightarrow> \<exists>g. hasGrounding r = Inr g"
  by (auto simp: hasGrounding_def split: option.splits list.splits)

text \<open>
  Claim C2. When every response of the session carries a call of \<^verbatim>\<open>fetchMedicalRecords\<close>
  or \<^verbatim>\<open>updateMemory\<close>, the executor returns: it has resolved exactly 5 calls (5 function
  responses went into the session), its tool usage lists the names of these 5 calls after
  the built-in tool signals of the first response, it is not paused, and its text is the
  text of the last response, or \<^verbatim>\<open>Task Completed.\<close> when that is absent or empty.
\<close>

theorem executeAgent_five_turns:
  assumes always: "\<forall>tr. \<exists>r. chatReply c tr = Inr r \<and> carriesClientCall r"
  shows "\<exists>result w' final builtins ns.
           executeAgent c a instr ctx language w = (Inr result, w')
         \<and> length ns = 5
         \<and> resolvedTools (events w') = resolvedTools (events w) @ ns
         \<and> toolUsage result = builtins @ ns
         \<and> set builtins \<subseteq> {''googleSearch'', ''codeExecution''}
         \<and> \<not> isPaused result
         \<and> chatReply c (events w') = Inr final
         \<and> resultText result =
             (case responseText final of
                None \<Rightarrow> ''Task Completed.''
              | Some t \<Rightarrow> if t = [] then ''Task Completed.'' else t)"
proof -
  let ?w1 = "w\<lparr>ticks := Suc (ticks w)\<rparr>"
  let ?w2 = "send (ChatCreate a ctx language (getFormattedContext (memoryBank ?w1))) ?w1"
  let ?w3 = "send (ChatSend a (Instruction instr)) ?w2"
  from always obtain r where r: "chatReply c (events ?w3) = Inr r" and cc: "carriesClientCall r"
    by blast
  from cc obtain g where g: "hasGrounding r = Inr g"
    using hasGrounding_ok by (auto simp: carriesClientCall_def)
  let ?u = "(if g then [''googleSearch''] else []) @ (if codePart r then [''codeExecution''] else [])"
  from toolLoop_client_calls [OF always refl _ r, of 0 a ?u]
  obtain final ns w4 where tl: "toolLoop c a r 0 ?u ?w3 = (Inr (LoopDone final (?u @ ns)), w4)"
    and len: "length ns = 5"
    and rt: "resolvedTools (events w4) = resolvedTools (events ?w3) @ ns"
    and fin: "chatReply c (events w4) = Inr final"
    by auto
  let ?res = "\<lparr>resultText = text_or (responseText final) ''Task Completed.'',
                isPaused = False, pauseReason = None, toolUsage = ?u @ ns\<rparr>"
  let ?w5 = "recordLatency c ''AgentExecutionTime'' (now c (ticks w)) w4"
  have run: "executeAgent c a instr ctx language w = (Inr ?res, ?w5)"
    using r g tl by (simp add: executeAgent_def Date_now_def Let_def)
  have rt3: "resolvedTools (events ?w3) = resolvedTools (events w)"
    by (simp add: send_def resolvedTools_append)
  have rtx: "resultText ?res =
      (case responseText final of None \<Rightarrow> ''Task Completed.''
       | Some t \<Rightarrow> if t = [] then ''Task Completed.'' else t)"
    by (simp add: text_or_def or_else_def split: option.splits)
  show ?thesis
    apply (rule exI [where x = ?res])
    apply (rule exI [where x = ?w5])
    apply (rule exI [where x = final])
    apply (rule exI [where x = ?u])
    apply (rule exI [where x = ns])
    using run len rt rt3 fin rtx by auto
qed

theorem executeAgent_five_turns_witness:
  "\<exists>result w' final builtins ns.
     executeAgent fetching_collab HEALTH ''check'' [] ''en-US'' example_world = (Inr result, w')
     \<and> length ns = 5
     \<and> resolvedTools (events w') = resolvedTools (events example_world) @ ns
     \<and> toolUsage result = builtins @ ns
     \<and> set builtins \<subseteq> {''googleSearch'', ''codeExecution''}
     \<and> \<not> isPaused result
     \<and> chatReply fetching_collab (events w') = Inr final
     \<and> resultText result =
         (case responseText final of
            None \<Rightarrow> ''Task Completed.''
          | Some t \<Rightarrow> if t = [] then ''Task Completed.'' else t)"
proof -
  have always: "\<forall>tr. \<exists>r. chatReply fetching_collab tr = Inr r \<and> carriesClientCall r"
    by (simp add: fetching_collab_def carriesClientCall_def fetch_call_def)
  show ?thesis
    by (rule executeAgent_five_turns [OF always])
qed

section \<open>Properties of the memory bank\<close>

text \<open>
  Claim C7, as stated, fails for the category \<^verbatim>\<open>profile\<close>: \<^verbatim>\<open>updateContext\<close> also sets
  \<^verbatim>\<open>lastInteraction\<close> to the current time. Here the clock reads 1000 and the stored
  value was 0.
\<close>

theorem updateMemory_profile_touches_lastInteraction:
  "lastInteraction (memoryBank (updateMemory clock_collab profile_args example_world)) = 1000
   \<and> lastInteraction (memoryBank example_world) = 0"
  by (simp add: updateMemory_def profile_args_def example_world_def example_context_def
        clock_collab_def Date_now_def updateContext_def)

text \<open>
  Claim C7, amended. An \<^verbatim>\<open>updateMemory\<close> call with category \<^verbatim>\<open>health\<close>, \<^verbatim>\<open>education\<close> or
  \<^verbatim>\<open>environment\<close> appends the item to \<^verbatim>\<open>healthConditions\<close>, \<^verbatim>\<open>learningGoals\<close> or
  \<^verbatim>\<open>ecoPreferences\<close> unless it is there already; category \<^verbatim>\<open>profile\<close> replaces the name
  by the item and sets \<^verbatim>\<open>lastInteraction\<close> to the current time; any other category appends
  the item to the notes unless it is there already. All other fields stay as they were.
\<close>

theorem updateMemory_effect:
  "memoryBank (updateMemory c a w) =
     (if category a = ''health'' then
        (memoryBank w)\<lparr>healthConditions :=
           (if item a \<in> set (healthConditions (memoryBank w)) then healthConditions (memoryBank w)
            else healthConditions (memoryBank w) @ [item a])\<rparr>
      else if category a = ''education'' then
        (memoryBank w)\<lparr>learningGoals :=
           (if item a \<in> set (learningGoals (memoryBank w)) then learningGoals (memoryBank w)
            else learningGoals (memoryBank w) @ [item a])\<rparr>
      else if category a = ''environment'' then
        (memoryBank w)\<lparr>ecoPreferences :=
           (if item a \<in> set (ecoPreferences (memoryBank w)) then ecoPreferences (memoryBank w)
            else ecoPreferences (memoryBank w) @ [item a])\<rparr>
      else if category a = ''profile'' then
        (memoryBank w)\<lparr>name := item a, lastInteraction := now c (ticks w)\<rparr>
      else
        (memoryBank w)\<lparr>notes :=
           (if item a \<in> set (notes (memoryBank w)) then notes (memoryBank w)
            else notes (memoryBank w) @ [item a])\<rparr>)"
  by (simp add: updateMemory_def addArrayItem_def addNote_def updateContext_def name_only_def
        spread_def Date_now_def)

theorem updateMemory_effect_witness:
  "memoryBank (updateMemory clock_collab profile_args example_world)
     = example_context\<lparr>name := ''Ada'', lastInteraction := 1000\<rparr>"
  using updateMemory_effect [of clock_collab profile_args example_world]
  by (simp add: profile_args_def example_world_def clock_collab_def)

text \<open>
  Claim C8, as stated, fails on a memory bank whose notes already hold the text twice
  (a context loaded from storage can): adding the text twice leaves two entries.
\<close>

theorem addNote_twice_keeps_duplicates:
  "count_list (notes (addNote ''a'' (addNote ''a'' duplicated_context))) ''a'' = 2"
  by (simp add: addNote_def duplicated_context_def example_context_def)

lemma count_list_pos: "x \<in> set xs \<Longrightarrow> 0 < count_list xs x"
  by (induction xs) auto

lemma context_at_update_same [simp]: "context_at k (context_at_update k xs ctx) = xs"
  by (cases k) simp_all

text \<open>
  Claim C8, amended. \<^verbatim>\<open>addNote\<close> and \<^verbatim>\<open>addArrayItem\<close> are idempotent: for every text and
  every state, calling the operation twice with the same text leaves the same state as
  calling it once; and the text then has exactly one stored entry whenever the list held
  it at most once before.
\<close>

theorem add_idempotent:
  "addNote t (addNote t ctx) = addNote t ctx
   \<and> addArrayItem k t (addArrayItem k t ctx) = addArrayItem k t ctx
   \<and> (count_list (notes ctx) t \<le> 1 \<longrightarrow> count_list (notes (addNote t ctx)) t = 1)
   \<and> (count_list (context_at k ctx) t \<le> 1
        \<longrightarrow> count_list (context_at k (addArrayItem k t ctx)) t = 1)"
proof (intro conjI impI)
  show "addNote t (addNote t ctx) = addNote t ctx"
    by (simp add: addNote_def)
  show "addArrayItem k t (addArrayItem k t ctx) = addArrayItem k t ctx"
    by (simp add: addArrayItem_def)
  show "count_list (notes (addNote t ctx)) t = 1" if "count_list (notes ctx) t \<le> 1"
  proof (cases "t \<in> set (notes ctx)")
    case True
    then have "0 < count_list (notes ctx) t" by (rule count_list_pos)
    with that True show ?thesis by (simp add: addNote_def)
  next
    case False
    then show ?thesis by (simp add: addNote_def)
  qed
  show "count_list (context_at k (addArrayItem k t ctx)) t = 1"
    if "count_list (context_at k ctx) t \<le> 1"
  proof (cases "t \<in> set (context_at k ctx)")
    case True
    then have "0 < count_list (context_at k ctx) t" by (rule count_list_pos)
    with that True show ?thesis by (simp add: addArrayItem_def)
  next
    case False
    then show ?thesis by (simp add: addArrayItem_def)
  qed
qed

theorem add_idempotent_witness:
  "addNote ''a'' (addNote ''a'' example_context) = addNote ''a'' example_context
   \<and> addArrayItem Key_learningGoals ''a'' (addArrayItem Key_learningGoals ''a'' example_context)
       = addArrayItem Key_learningGoals ''a'' example_context
   \<and> count_list (notes example_context) ''a'' \<le> 1
   \<and> count_list (notes (addNote ''a'' example_context)) ''a'' = 1
   \<and> count_list (context_at Key_learningGoals example_context) ''a'' \<le> 1
   \<and> count_list (context_at Key_learningGoals (addArrayItem Key_learningGoals ''a'' example_context)) ''a'' = 1"
  using add_idempotent [of "''a''" example_context Key_learningGoals]
  by (simp add: example_context_def)

section \<open>The evaluator\<close>

text \<open>
  Claim C5. The evaluator always returns a result, never an error. When the scoring call
  fails, or its answer cannot be read, the result is the safe default with score 8,
  feedback \<^verbatim>\<open>Evaluation service unavailable.\<close>, latency 0 and token cost 0; otherwise it
  holds the parsed score and feedback, the time between the two clock readings, and as
  token cost the length of the response text divided by 4, rounded down.
\<close>

theorem evaluateResponse_result:
  "fst (evaluateResponse c query result w) =
     (case scoreReply c (events w @ [ScoreRequest query result]) of
        Parsed (s, f) \<Rightarrow>
          Inr \<lparr>score = s, feedback = f, latencyMs = now c (Suc (ticks w)) - now c (ticks w),
               tokenCost = length result div 4\<rparr>
      | Failed e \<Rightarrow>
          Inr \<lparr>score = 8, feedback = ''Evaluation service unavailable.'', latencyMs = 0,
               tokenCost = 0\<rparr>
      | Unparsable \<Rightarrow>
          Inr \<lparr>score = 8, feedback = ''Evaluation service unavailable.'', latencyMs = 0,
               tokenCost = 0\<rparr>)"
  by (simp add: evaluateResponse_def Date_now_def send_def Let_def evaluation_unavailable_def
        split: generated.splits prod.splits)



section \<open>The runner\<close>

lemma run_after_planning:
  assumes "apiKey \<noteq> []"
    and "contextCompaction c history resumeState (w\<lparr>ticks := Suc (ticks w)\<rparr>) = (Inr summary, w1)"
    and "planningPhase c prompt summary resumeState w1 = (Inr (pl, acc, outs, i0), w2)"
  shows "runMultiAgentSystem c prompt history apiKey language thinking resumeState w
     = (case executionPhase c pl resumeState acc outs i0 language w2 of
          (Inl e, w3) \<Rightarrow> (Inl e, w3)
        | (Inr (Return paused), w3) \<Rightarrow> (Inr paused, w3)
        | (Inr (Continue outs' usageLog), w3) \<Rightarrow>
            synthesisPhase c prompt summary language thinking pl outs' usageLog
              (now c (ticks w)) w3)"
  using assms by (simp add: runMultiAgentSystem_def Date_now_def)

lemma runMultiAgentSystem_resume_idle:
  assumes "apiKey \<noteq> []"
    and "mode (plan st) \<noteq> SEQUENTIAL"
  shows "runMultiAgentSystem c prompt history apiKey language thinking (Some st) w
           = synthesisPhase c prompt [] language thinking (plan st) (agentOutputs st) []
               (now c (ticks w)) (w\<lparr>ticks := Suc (ticks w)\<rparr>)"
  using assms
  by (simp add: runMultiAgentSystem_def Date_now_def contextCompaction_def planningPhase_def
        executionPhase_def)

lemma synthesisPhase_request:
  "events (snd (synthesisPhase c prompt summary language thinking pl outs usageLog start w))
     ! length (events w)
   = SynthRequest
       \<lparr>useThinking = thinking, originalQuery = prompt, synthesisContext = outputsText outs,
        historyContext = summary, memoryContext = getFormattedContext (memoryBank w),
        toolsUsed = join '', '' usageLog, responseLanguage = language\<rparr>"
  using synthesisPhase_events [of c prompt summary language thinking pl outs usageLog start w]
  by (auto simp: nth_append)

lemma runMultiAgentSystem_extends_resume:
  "extends (\<lambda>e. is_chat e \<or> is_synthesis e \<or> is_score e) w
     (snd (runMultiAgentSystem c prompt history apiKey language thinking (Some st) w))"
proof (cases "apiKey = []")
  case True
  then show ?thesis by (simp add: runMultiAgentSystem_def extends_refl)
next
  case False
  let ?P = "\<lambda>e. is_chat e \<or> is_synthesis e \<or> is_score e"
  let ?w0 = "w\<lparr>ticks := Suc (ticks w)\<rparr>"
  let ?ex = "executionPhase c (plan st) (Some st) (accumulatedContext st) (agentOutputs st)
               (stepIndex st) language ?w0"
  obtain res w3 where ex: "?ex = (res, w3)" by (cases ?ex)
  have "extends is_chat ?w0 w3"
    using executionPhase_extends [of ?w0 c "plan st" "Some st" "accumulatedContext st"
      "agentOutputs st" "stepIndex st" language] ex by simp
  then have "extends ?P ?w0 w3" by (rule extends_mono) simp
  then have e3: "extends ?P w w3" by (simp add: extends_iff)
  have run: "runMultiAgentSystem c prompt history apiKey language thinking (Some st) w
      = (case res of
           Inl e \<Rightarrow> (Inl e, w3)
         | Inr (Return paused) \<Rightarrow> (Inr paused, w3)
         | Inr (Continue outs' usageLog) \<Rightarrow>
             synthesisPhase c prompt [] language thinking (plan st) outs' usageLog
               (now c (ticks w)) w3)"
    using False ex
    by (simp add: runMultiAgentSystem_def Date_now_def contextCompaction_def planningPhase_def)
  show ?thesis
  proof (cases res)
    case (Inl e)
    with run e3 show ?thesis by simp
  next
    case (Inr d)
    show ?thesis
    proof (cases d)
      case (Return paused)
      with Inr run e3 show ?thesis by simp
    next
      case (Continue outs' usageLog)
      have "extends (\<lambda>e. is_synthesis e \<or> is_score e) w3
         (snd (synthesisPhase c prompt [] language thinking (plan st) outs' usageLog
               (now c (ticks w)) w3))"
        by (rule synthesisPhase_extends)
      then have "extends ?P w3
         (snd (synthesisPhase c prompt [] language thinking (plan st) outs' usageLog
               (now c (ticks w)) w3))"
        by (rule extends_mono) auto
      with e3 Continue Inr run show ?thesis by (simp add: extends_trans)
    qed
  qed
qed

lemma sequentialLoop_step:
  assumes "i < length (steps pl)"
    and "executeAgent c (agent (steps pl ! i)) (instruction (steps pl ! i)) acc language w = (Inr result, w1)"
    and "\<not> isPaused result"
  shows "sequentialLoop c pl language i acc outs usageLog w
     = sequentialLoop c pl language (Suc i)
         (acc @ ''\<newline>[Output from '' @ domain_str (agent (steps pl ! i)) @ '']: '' @ resultText result)
         (assign (agent (steps pl ! i)) (resultText result) outs)
         (usageLog @ toolUsage result) w1"
  using assms by (subst sequentialLoop.simps) (simp add: Let_def)

lemma sequentialLoop_pause:
  assumes "i < length (steps pl)"
    and "executeAgent c (agent (steps pl ! i)) (instruction (steps pl ! i)) acc language w = (Inr result, w1)"
    and "isPaused result"
  shows "sequentialLoop c pl language i acc outs usageLog w
     = (Inr (Return
          \<lparr>response = ''Workflow Paused: '' @ interpolate (pauseReason result),
           sentiment = NEUTRAL, executionMode = PAUSED,
           activeAgents = [agent (steps pl ! i)],
           pausedState = Some
             \<lparr>plan = pl, stepIndex = i + 1,
              accumulatedContext =
                acc @ ''\<newline>[Paused Step '' @ domain_str (agent (steps pl ! i)) @ '']: ''
                    @ resultText result,
              agentOutputs = outs\<rparr>,
           pauseReasoning = pauseReason result,
           crossDomainInsight = None, suggestedAction = None, toolCalls = None,
           chartData = None, evaluation = None, metrics = None\<rparr>), w1)"
  using assms by (subst sequentialLoop.simps) (simp add: Let_def)

text \<open>
  Claim C1. A sequential run has planned or restored the plan \<open>pl\<close> and its loop has come
  to step \<open>i\<close> with the running context \<open>acc\<close> and the outputs \<open>outs\<close> (from there it
  computes what the whole loop computes). If the executor of step \<open>i\<close> returns paused,
  the run returns at once, in the state the executor left: the result has execution mode
  \<^verbatim>\<open>PAUSED\<close> and a paused state with the plan \<open>pl\<close>, step index \<open>i + 1\<close>, the running
  context followed by the annotation of the paused step's text, and the outputs so far.
  No synthesis request and no scoring request has been sent during the run.
\<close>

theorem sequential_pause:
  assumes "apiKey \<noteq> []"
    and "contextCompaction c history resumeState (w\<lparr>ticks := Suc (ticks w)\<rparr>) = (Inr summary, w1)"
    and "planningPhase c prompt summary resumeState w1 = (Inr (pl, acc0, outs0, i0), w2)"
    and "mode pl = SEQUENTIAL"
    and "sequentialLoop c pl language i0 acc0 outs0 [] w2
           = sequentialLoop c pl language i acc outs usageLog wi"
    and "i < length (steps pl)"
    and "executeAgent c (agent (steps pl ! i)) (instruction (steps pl ! i)) acc language wi
           = (Inr result, w')"
    and "isPaused result"
  shows "\<exists>r. runMultiAgentSystem c prompt history apiKey language thinking resumeState w = (Inr r, w')
       \<and> executionMode r = PAUSED
       \<and> pausedState r = Some
            \<lparr>plan = pl, stepIndex = i + 1,
             accumulatedContext =
               acc @ ''\<newline>[Paused Step '' @ domain_str (agent (steps pl ! i)) @ '']: ''
                   @ resultText result,
             agentOutputs = outs\<rparr>
       \<and> filter is_synthesis (events w') = filter is_synthesis (events w)
       \<and> filter is_score (events w') = filter is_score (events w)"
proof -
  let ?P = "\<lambda>e. is_summary e \<or> is_plan e \<or> is_chat e"
  let ?w0 = "w\<lparr>ticks := Suc (ticks w)\<rparr>"
  let ?r = "\<lparr>response = ''Workflow Paused: '' @ interpolate (pauseReason result),
           sentiment = NEUTRAL, executionMode = PAUSED,
           activeAgents = [agent (steps pl ! i)],
           pausedState = Some
             \<lparr>plan = pl, stepIndex = i + 1,
              accumulatedContext =
                acc @ ''\<newline>[Paused Step '' @ domain_str (agent (steps pl ! i)) @ '']: ''
                    @ resultText result,
              agentOutputs = outs\<rparr>,
           pauseReasoning = pauseReason result,
           crossDomainInsight = None, suggestedAction = None, toolCalls = None,
           chartData = None, evaluation = None, metrics = None\<rparr>"
  have loop: "sequentialLoop c pl language i0 acc0 outs0 [] w2 = (Inr (Return ?r), w')"
    unfolding assms(5) using assms(6,7,8) by (rule sequentialLoop_pause)
  have ex: "executionPhase c pl resumeState acc0 outs0 i0 language w2 = (Inr (Return ?r), w')"
    using assms(4) loop by (simp add: executionPhase_def)
  have run: "runMultiAgentSystem c prompt history apiKey language thinking resumeState w
      = (Inr ?r, w')"
    unfolding run_after_planning [OF assms(1,2,3)] ex by simp
  have "extends is_summary ?w0 w1"
    using contextCompaction_extends [of ?w0 c history resumeState] assms(2) by simp
  then have e1: "extends ?P w w1"
    by (auto simp: extends_iff list_all_iff)
  have "extends is_plan w1 w2"
    using planningPhase_extends [of w1 c prompt summary resumeState] assms(3) by simp
  then have e2: "extends ?P w1 w2" by (rule extends_mono) simp
  have "extends is_chat w2 w'"
    using sequentialLoop_extends [of w2 c pl language i0 acc0 outs0 "[]"] loop by simp
  then have e3: "extends ?P w2 w'" by (rule extends_mono) simp
  have e: "extends ?P w w'"
    using e1 e2 e3 by (blast intro: extends_trans)
  have syn: "filter is_synthesis (events w') = filter is_synthesis (events w)"
    using e by (rule extends_filter) (auto elim: is_summary.elims is_plan.elims is_chat.elims)
  have sco: "filter is_score (events w') = filter is_score (events w)"
    using e by (rule extends_filter) (auto elim: is_summary.elims is_plan.elims is_chat.elims)
  show ?thesis
    apply (rule exI [where x = ?r])
    using run syn sco by simp
qed


text \<open>
  Claim C3. A run resumed from a paused state whose plan has mode \<^verbatim>\<open>PARALLEL\<close>,
  \<^verbatim>\<open>LOOP\<close> or \<^verbatim>\<open>DIRECT\<close> is the synthesis phase alone, run on the agent outputs of the
  paused state with an empty tool usage log: no request goes to any agent session, and
  the first request of the run is the synthesis request over those outputs.
\<close>

theorem resume_runs_no_branch:
  assumes "apiKey \<noteq> []"
    and "mode (plan st) = PARALLEL \<or> mode (plan st) = LOOP \<or> mode (plan st) = DIRECT"
  shows "runMultiAgentSystem c prompt history apiKey language thinking (Some st) w
           = synthesisPhase c prompt [] language thinking (plan st) (agentOutputs st) []
               (now c (ticks w)) (w\<lparr>ticks := Suc (ticks w)\<rparr>)
       \<and> filter is_chat (events (snd (runMultiAgentSystem c prompt history apiKey language thinking (Some st) w)))
           = filter is_chat (events w)
       \<and> events (snd (runMultiAgentSystem c prompt history apiKey language thinking (Some st) w))
           ! length (events w)
           = SynthRequest
               \<lparr>useThinking = thinking, originalQuery = prompt,
                synthesisContext = outputsText (agentOutputs st), historyContext = [],
                memoryContext = getFormattedContext (memoryBank w), toolsUsed = [],
                responseLanguage = language\<rparr>"
proof -
  let ?w0 = "w\<lparr>ticks := Suc (ticks w)\<rparr>"
  let ?syn = "synthesisPhase c prompt [] language thinking (plan st) (agentOutputs st) []
               (now c (ticks w)) ?w0"
  from assms(2) have ns: "mode (plan st) \<noteq> SEQUENTIAL" by auto
  have run: "runMultiAgentSystem c prompt history apiKey language thinking (Some st) w = ?syn"
    using assms(1) ns by (rule runMultiAgentSystem_resume_idle)
  have "extends (\<lambda>e. is_synthesis e \<or> is_score e) ?w0 (snd ?syn)"
    by (rule synthesisPhase_extends)
  then have "filter is_chat (events (snd ?syn)) = filter is_chat (events ?w0)"
    by (rule extends_filter) (auto elim: is_synthesis.elims is_score.elims)
  then have chat: "filter is_chat (events (snd ?syn)) = filter is_chat (events w)" by simp
  from synthesisPhase_events [of c prompt "[]" language thinking "plan st" "agentOutputs st" "[]"
      "now c (ticks w)" ?w0]
  have "events (snd ?syn) ! length (events w)
           = SynthRequest
               \<lparr>useThinking = thinking, originalQuery = prompt,
                synthesisContext = outputsText (agentOutputs st), historyContext = [],
                memoryContext = getFormattedContext (memoryBank w), toolsUsed = [],
                responseLanguage = language\<rparr>"
    by (auto simp: nth_append)
  with run chat show ?thesis by simp
qed


lemma executionPhase_fallback:
  "executionPhase c (fallbackPlan prompt) None acc [] i language w
     = (case executeAgent c ORCHESTRATOR prompt acc language w of
          (Inl e', w3) \<Rightarrow> (Inl e', w3)
        | (Inr result, w3) \<Rightarrow>
            (Inr (Continue [(ORCHESTRATOR, resultText result)] (toolUsage result)), w3))"
  by (simp add: executionPhase_def fallbackPlan_def directCall_def split: prod.splits sum.splits)

text \<open>
  Claim C4. If the planning call throws on a fresh run, the planning phase still yields a
  plan, the fallback plan: mode \<^verbatim>\<open>DIRECT\<close>, the single step of the orchestrator with the
  request as instruction, reasoning \<^verbatim>\<open>Fallback.\<close>. The run goes on as that plan says,
  with one executor call and the synthesis phase, whatever the error was.
\<close>

theorem planning_failure_fallback:
  assumes "apiKey \<noteq> []"
    and "contextCompaction c history None (w\<lparr>ticks := Suc (ticks w)\<rparr>) = (Inr summary, w1)"
    and "planExecution c (fullPlanningContext summary prompt (getFormattedContext (memoryBank w1))) w1
           = (Inl e, w2)"
  shows "planningPhase c prompt summary None w1
           = (Inr (\<lparr>mode = DIRECT, steps = [\<lparr>agent = ORCHESTRATOR, instruction = prompt\<rparr>],
                    reasoning = ''Fallback.''\<rparr>,
                   ''User Query: '' @ prompt @ ''\<newline>Session ID: '' @ sessionService w1
                     @ ''\<newline>History Context: '' @ summary @ ''\<newline>''
                     @ getFormattedContext (memoryBank w1),
                   [], 0), w2)
       \<and> runMultiAgentSystem c prompt history apiKey language thinking None w
           = (case executeAgent c ORCHESTRATOR prompt
                     (''User Query: '' @ prompt @ ''\<newline>Session ID: '' @ sessionService w1
                       @ ''\<newline>History Context: '' @ summary @ ''\<newline>''
                       @ getFormattedContext (memoryBank w1)) language w2 of
                (Inl e', w3) \<Rightarrow> (Inl e', w3)
              | (Inr result, w3) \<Rightarrow>
                  synthesisPhase c prompt summary language thinking
                    \<lparr>mode = DIRECT, steps = [\<lparr>agent = ORCHESTRATOR, instruction = prompt\<rparr>],
                     reasoning = ''Fallback.''\<rparr>
                    [(ORCHESTRATOR, resultText result)] (toolUsage result)
                    (now c (ticks w)) w3)"
proof -
  let ?acc = "''User Query: '' @ prompt @ ''\<newline>Session ID: '' @ sessionService w1
                     @ ''\<newline>History Context: '' @ summary @ ''\<newline>''
                     @ getFormattedContext (memoryBank w1)"
  have pp: "planningPhase c prompt summary None w1 = (Inr (fallbackPlan prompt, ?acc, [], 0), w2)"
    unfolding planningPhase_def Let_def option.case assms(3) prod.case sum.case ..
  obtain res w3 where x: "executeAgent c ORCHESTRATOR prompt ?acc language w2 = (res, w3)"
    by (cases "executeAgent c ORCHESTRATOR prompt ?acc language w2")
  have run: "runMultiAgentSystem c prompt history apiKey language thinking None w
      = (case executeAgent c ORCHESTRATOR prompt ?acc language w2 of
                (Inl e', w3) \<Rightarrow> (Inl e', w3)
              | (Inr result, w3) \<Rightarrow>
                  synthesisPhase c prompt summary language thinking (fallbackPlan prompt)
                    [(ORCHESTRATOR, resultText result)] (toolUsage result)
                    (now c (ticks w)) w3)"
    unfolding run_after_planning [OF assms(1,2) pp] executionPhase_fallback x
    by (cases res) (simp_all only: prod.case sum.case dispatch.case)
  from pp run show ?thesis unfolding fallbackPlan_def by blast
qed


section \<open>History compaction\<close>

lemma turnLines_ok:
  "\<forall>h\<in>set history. parts h \<noteq> [] \<Longrightarrow>
     turnLines history = Inr (map (\<lambda>h. toUpperCase (role h) @ '': '' @ hd (parts h)) history)"
  by (induction history) (auto simp: turnLine_def split: list.splits)

lemma historyText_ok:
  "\<forall>h\<in>set history. parts h \<noteq> [] \<Longrightarrow> historyText history = Inr (verbatimTranscript history)"
  by (simp add: historyText_def turnLines_ok verbatimTranscript_def)

text \<open>
  Claim C6. On a fresh run with prior turns (each with a text part), the compacted context
  of more than 6 turns comes from one summarization call over the verbatim transcript (its
  text, or the empty string when it has none; the call's error when it fails), and that
  of at most 6 turns is the verbatim transcript itself, with no call. On a resumed run
  the compaction does nothing, and the whole run sends no summarization request.
\<close>

theorem compaction_threshold:
  "(history \<noteq> [] \<and> (\<forall>h\<in>set history. parts h \<noteq> []) \<longrightarrow>
      contextCompaction c history None w =
        (if length history > 6 then
           (case summaryReply c (events w @ [SummaryRequest (verbatimTranscript history)]) of
              Inl e \<Rightarrow> (Inl e, w\<lparr>events := events w @ [SummaryRequest (verbatimTranscript history)]\<rparr>)
            | Inr t \<Rightarrow>
                (Inr (case t of None \<Rightarrow> [] | Some s \<Rightarrow> s),
                 w\<lparr>events := events w @ [SummaryRequest (verbatimTranscript history)]\<rparr>))
         else (Inr (verbatimTranscript history), w)))
   \<and> contextCompaction c history (Some st) w = (Inr [], w)
   \<and> filter is_summary
        (events (snd (runMultiAgentSystem c prompt history apiKey language thinking (Some st) w)))
       = filter is_summary (events w)"
proof (intro conjI impI)
  assume h: "history \<noteq> [] \<and> (\<forall>h\<in>set history. parts h \<noteq> [])"
  then have ht: "historyText history = Inr (verbatimTranscript history)"
    by (simp add: historyText_ok)
  from h ht show "contextCompaction c history None w =
        (if length history > 6 then
           (case summaryReply c (events w @ [SummaryRequest (verbatimTranscript history)]) of
              Inl e \<Rightarrow> (Inl e, w\<lparr>events := events w @ [SummaryRequest (verbatimTranscript history)]\<rparr>)
            | Inr t \<Rightarrow>
                (Inr (case t of None \<Rightarrow> [] | Some s \<Rightarrow> s),
                 w\<lparr>events := events w @ [SummaryRequest (verbatimTranscript history)]\<rparr>))
         else (Inr (verbatimTranscript history), w))"
    by (simp add: contextCompaction_def compactHistory_def Let_def send_def text_or_def
          or_else_def split: sum.splits option.splits)
next
  show "contextCompaction c history (Some st) w = (Inr [], w)"
    by (simp add: contextCompaction_def)
next
  show "filter is_summary
        (events (snd (runMultiAgentSystem c prompt history apiKey language thinking (Some st) w)))
       = filter is_summary (events w)"
    using runMultiAgentSystem_extends_resume
    by (rule extends_filter) (auto elim: is_chat.elims is_synthesis.elims is_score.elims)
qed



section \<open>The refinement loop\<close>

text \<open>
  Claim C10. On a fresh run whose plan has mode \<^verbatim>\<open>LOOP\<close>, the refinement loop hands on
  an empty tool usage log, whatever the tool usage of its three executor calls: the run
  is the synthesis phase with the empty log, and its synthesis request lists no tool.
\<close>

theorem loop_discards_tool_usage:
  assumes "apiKey \<noteq> []"
    and "contextCompaction c history None (w\<lparr>ticks := Suc (ticks w)\<rparr>) = (Inr summary, w1)"
    and "planningPhase c prompt summary None w1 = (Inr (pl, acc, outs, i0), w2)"
    and "mode pl = LOOP"
    and "refinementLoop c pl language acc outs [] w2 = (Inr d, w3)"
  shows "\<exists>outs'. d = Continue outs' []
       \<and> runMultiAgentSystem c prompt history apiKey language thinking None w
           = synthesisPhase c prompt summary language thinking pl outs' []
               (now c (ticks w)) w3
       \<and> events (snd (runMultiAgentSystem c prompt history apiKey language thinking None w))
           ! length (events w3)
           = SynthRequest
               \<lparr>useThinking = thinking, originalQuery = prompt,
                synthesisContext = outputsText outs', historyContext = summary,
                memoryContext = getFormattedContext (memoryBank w3), toolsUsed = [],
                responseLanguage = language\<rparr>"
proof -
  from refinementLoop_keeps_log [OF assms(5)] obtain outs' where d: "d = Continue outs' []"
    by blast
  have ex: "executionPhase c pl None acc outs i0 language w2 = (Inr (Continue outs' []), w3)"
    using assms(4,5) d by (simp add: executionPhase_def)
  have run: "runMultiAgentSystem c prompt history apiKey language thinking None w
           = synthesisPhase c prompt summary language thinking pl outs' []
               (now c (ticks w)) w3"
    using assms(1,2,3) ex by (simp add: runMultiAgentSystem_def Date_now_def)
  show ?thesis
    using d run
      synthesisPhase_request [of c prompt summary language thinking pl outs' "[]" "now c (ticks w)" w3]
    by simp
qed



section \<open>Example runs\<close>

text \<open>
  The example service answers every message with the text \<^verbatim>\<open>Done\<close> under grounding and
  code execution signals, except in a session of the education agent, where it asks for a
  pause; its planning call fails, its synthesis and scoring calls succeed.
\<close>

lemmas ex_defs = executeAgent_def Date_now_def Let_def send_def answering_collab_def clock_collab_def
        example_world_def hasGrounding_def codePart_def toolLoop.simps clientTool_def
        text_or_def or_else_def text_response_def pause_response_def recordLatency_def
        traceService_recordMetric_def recordMetric_def

text \<open>
  A resumed sequential run of two steps: the health agent completes, the education agent
  pauses at step 1, and the run returns the paused state for step 2.
\<close>

theorem sequential_pause_witness:
  "\<exists>r w'. runMultiAgentSystem answering_collab ''q'' [] ''key'' ''en-US'' False
              (Some sequential_state) example_world = (Inr r, w')
     \<and> executionMode r = PAUSED
     \<and> pausedState r = Some
          \<lparr>plan = sequential_plan, stepIndex = 2,
           accumulatedContext =
             ''ctx\<newline>[Output from HEALTH]: Done\<newline>[Paused Step EDUCATION]: Workflow Paused: wait'',
           agentOutputs = [(HEALTH, ''Done'')]\<rparr>
     \<and> filter is_synthesis (events w') = []
     \<and> filter is_score (events w') = []"
proof -
  let ?c = answering_collab
  let ?w0 = "example_world\<lparr>ticks := Suc (ticks example_world)\<rparr>"
  let ?r0 = "\<lparr>resultText = ''Done'', isPaused = False, pauseReason = None,
              toolUsage = [''googleSearch'', ''codeExecution'']\<rparr>"
  let ?x0 = "executeAgent ?c HEALTH ''a'' ''ctx'' ''en-US'' ?w0"
  let ?acc = "''ctx'' @ ''\<newline>[Output from '' @ domain_str HEALTH @ '']: '' @ resultText ?r0"
  let ?r1 = "\<lparr>resultText = ''Workflow Paused: wait'', isPaused = True, pauseReason = Some ''wait'',
              toolUsage = [''pauseWorkflow'']\<rparr>"
  let ?x1 = "executeAgent ?c EDUCATION ''b'' ?acc ''en-US'' (snd ?x0)"
  have h2: "contextCompaction ?c [] (Some sequential_state) ?w0 = (Inr [], ?w0)"
    by (simp add: contextCompaction_def)
  have h3: "planningPhase ?c ''q'' [] (Some sequential_state) ?w0
      = (Inr (sequential_plan, ''ctx'', [], 0), ?w0)"
    by (simp add: planningPhase_def sequential_state_def)
  have h4: "mode sequential_plan = SEQUENTIAL" by (simp add: sequential_plan_def)
  have s0: "steps sequential_plan ! 0 = \<lparr>agent = HEALTH, instruction = ''a''\<rparr>"
    and s1: "steps sequential_plan ! Suc 0 = \<lparr>agent = EDUCATION, instruction = ''b''\<rparr>"
    and len: "length (steps sequential_plan) = 2"
    by (simp_all add: sequential_plan_def)
  have f0: "fst ?x0 = Inr ?r0" by (simp add: ex_defs)
  then have x0: "?x0 = (Inr ?r0, snd ?x0)" by (simp add: prod_eq_iff)
  have f1: "fst ?x1 = Inr ?r1" by (simp add: ex_defs)
  then have x1: "?x1 = (Inr ?r1, snd ?x1)" by (simp add: prod_eq_iff)
  have h5: "sequentialLoop ?c sequential_plan ''en-US'' 0 ''ctx'' [] [] ?w0
      = sequentialLoop ?c sequential_plan ''en-US'' (Suc 0) ?acc (assign HEALTH (resultText ?r0) [])
          ([] @ toolUsage ?r0) (snd ?x0)"
    using sequentialLoop_step [of 0 sequential_plan ?c "''ctx''" "''en-US''" ?w0 ?r0 "snd ?x0" "[]" "[]"]
      x0 by (simp add: s0 len del: append.simps append_assoc)
  have h7: "executeAgent ?c (agent (steps sequential_plan ! Suc 0)) (instruction (steps sequential_plan ! Suc 0))
              ?acc ''en-US'' (snd ?x0) = (Inr ?r1, snd ?x1)"
    using x1 by (simp add: s1 del: append.simps append_assoc)
  from sequential_pause [of "''key''" ?c "[]" "Some sequential_state" example_world "[]" ?w0
      "''q''" sequential_plan "''ctx''" "[]" 0 ?w0 "''en-US''" "Suc 0" ?acc _ _ "snd ?x0" ?r1 "snd ?x1" False,
      OF _ h2 h3 h4 h5 _ h7]
  obtain r where "runMultiAgentSystem ?c ''q'' [] ''key'' ''en-US'' False
              (Some sequential_state) example_world = (Inr r, snd ?x1)"
     and "executionMode r = PAUSED"
     and "pausedState r = Some
            \<lparr>plan = sequential_plan, stepIndex = Suc 0 + 1,
             accumulatedContext =
               ?acc @ ''\<newline>[Paused Step '' @ domain_str (agent (steps sequential_plan ! Suc 0)) @ '']: ''
                   @ resultText ?r1,
             agentOutputs = assign HEALTH (resultText ?r0) []\<rparr>"
     and "filter is_synthesis (events (snd ?x1)) = filter is_synthesis (events example_world)"
     and "filter is_score (events (snd ?x1)) = filter is_score (events example_world)"
    by (auto simp: len)
  then show ?thesis
    by (intro exI [where x = r] exI [where x = "snd ?x1"]) (simp add: s1 example_world_def)
qed


lemma executeAgent_text:
  assumes "chatReply c = chatReply answering_collab" and "a \<noteq> EDUCATION"
  shows "fst (executeAgent c a instr acc language w)
     = Inr \<lparr>resultText = ''Done'', isPaused = False, pauseReason = None,
            toolUsage = [''googleSearch'', ''codeExecution'']\<rparr>"
  using assms(2)
  by (cases a)
     (simp_all add: executeAgent_def Date_now_def Let_def send_def assms(1) answering_collab_def
        hasGrounding_def codePart_def toolLoop.simps text_or_def or_else_def text_response_def)

lemma synthesisPhase_answering:
  assumes "synthReply c = synthReply answering_collab" and "scoreReply c = scoreReply answering_collab"
  shows "\<exists>r. fst (synthesisPhase c prompt summary language thinking pl outs usageLog start w) = Inr r
     \<and> executionMode r = mode pl \<and> activeAgents r = map agent (steps pl)
     \<and> response r = ''All good.'' \<and> pausedState r = None"
  by (simp add: synthesisPhase_def evaluateResponse_def Let_def send_def Date_now_def assms
        answering_collab_def final_example_def)

text \<open>A run resumed from a paused state with a parallel plan.\<close>

theorem resume_runs_no_branch_witness:
  "\<exists>r w'. runMultiAgentSystem answering_collab ''q'' [] ''key'' ''en-US'' False
            (Some parallel_state) example_world = (Inr r, w')
     \<and> executionMode r = PARALLEL
     \<and> filter is_chat (events w') = []
     \<and> events w' ! 0 = SynthRequest
          \<lparr>useThinking = False, originalQuery = ''q'',
           synthesisContext = ''HEALTH Output: Rest.'', historyContext = [],
           memoryContext = getFormattedContext example_context, toolsUsed = [],
           responseLanguage = ''en-US''\<rparr>"
proof -
  let ?run = "runMultiAgentSystem answering_collab ''q'' [] ''key'' ''en-US'' False
            (Some parallel_state) example_world"
  have m: "mode (plan parallel_state) = PARALLEL \<or> mode (plan parallel_state) = LOOP
      \<or> mode (plan parallel_state) = DIRECT"
    by (simp add: parallel_state_def)
  have k: "''key'' \<noteq> []" by simp
  note t = resume_runs_no_branch [of "''key''" parallel_state answering_collab "''q''" "[]" "''en-US''"
      False example_world, OF k m]
  note eq = t [THEN conjunct1]
  note chat = t [THEN conjunct2, THEN conjunct1]
  note req = t [THEN conjunct2, THEN conjunct2]
  from synthesisPhase_answering [OF refl refl, of "''q''" "[]" "''en-US''" False
      "plan parallel_state" "agentOutputs parallel_state" "[]"
      "now answering_collab (ticks example_world)" "example_world\<lparr>ticks := Suc (ticks example_world)\<rparr>"]
  obtain r where r: "fst ?run = Inr r" "executionMode r = mode (plan parallel_state)"
    unfolding eq by blast
  have "?run = (Inr r, snd ?run)" using r(1) by (simp add: prod_eq_iff)
  moreover have "executionMode r = PARALLEL" using r(2) by (simp add: parallel_state_def)
  moreover have "filter is_chat (events (snd ?run)) = []"
    using chat by (simp add: example_world_def)
  moreover have "events (snd ?run) ! 0 = SynthRequest
          \<lparr>useThinking = False, originalQuery = ''q'',
           synthesisContext = ''HEALTH Output: Rest.'', historyContext = [],
           memoryContext = getFormattedContext example_context, toolsUsed = [],
           responseLanguage = ''en-US''\<rparr>"
    using req by (simp add: example_world_def parallel_state_def outputsText_def)
  ultimately show ?thesis by blast
qed

text \<open>Histories of 7, of 6 and of 2 turns.\<close>

theorem compaction_threshold_witness:
  "contextCompaction summarizing_collab (replicate 7 hi_turn) None example_world
     = (Inr ''Summary'',
        example_world\<lparr>events := [SummaryRequest (verbatimTranscript (replicate 7 hi_turn))]\<rparr>)
   \<and> contextCompaction summarizing_collab (replicate 6 hi_turn) None example_world
     = (Inr (verbatimTranscript (replicate 6 hi_turn)), example_world)
   \<and> contextCompaction summarizing_collab [hi_turn, hello_turn] None example_world
     = (Inr ''USER: hi\<newline>MODEL: hello'', example_world)"
proof -
  have seven: "replicate 7 hi_turn \<noteq> [] \<and> (\<forall>h\<in>set (replicate 7 hi_turn). parts h \<noteq> [])"
    and six: "replicate 6 hi_turn \<noteq> [] \<and> (\<forall>h\<in>set (replicate 6 hi_turn). parts h \<noteq> [])"
    and two: "[hi_turn, hello_turn] \<noteq> [] \<and> (\<forall>h\<in>set [hi_turn, hello_turn]. parts h \<noteq> [])"
    by (simp_all add: hi_turn_def hello_turn_def)
  have vt: "verbatimTranscript [hi_turn, hello_turn] = ''USER: hi\<newline>MODEL: hello''"
    by (simp add: verbatimTranscript_def hi_turn_def hello_turn_def toUpperCase_def)
  from compaction_threshold [of "replicate 7 hi_turn" summarizing_collab example_world] seven
  have c7: "contextCompaction summarizing_collab (replicate 7 hi_turn) None example_world
     = (Inr ''Summary'',
        example_world\<lparr>events := [SummaryRequest (verbatimTranscript (replicate 7 hi_turn))]\<rparr>)"
    by (simp add: summarizing_collab_def example_world_def)
  from compaction_threshold [of "replicate 6 hi_turn" summarizing_collab example_world] six
  have c6: "contextCompaction summarizing_collab (replicate 6 hi_turn) None example_world
     = (Inr (verbatimTranscript (replicate 6 hi_turn)), example_world)"
    by simp
  from compaction_threshold [of "[hi_turn, hello_turn]" summarizing_collab example_world] two
  have c2: "contextCompaction summarizing_collab [hi_turn, hello_turn] None example_world
     = (Inr ''USER: hi\<newline>MODEL: hello'', example_world)"
    by (simp add: vt)
  from c7 c6 c2 show ?thesis by simp
qed


lemma executeAgent_text_run:
  assumes "chatReply c = chatReply answering_collab" and "a \<noteq> EDUCATION"
  shows "\<exists>w'. executeAgent c a instr acc language w
     = (Inr \<lparr>resultText = ''Done'', isPaused = False, pauseReason = None,
             toolUsage = [''googleSearch'', ''codeExecution'']\<rparr>, w')"
  using executeAgent_text [OF assms, of instr acc language w]
  by (cases "executeAgent c a instr acc language w") simp

text \<open>A fresh run whose planning call fails.\<close>

theorem planning_failure_fallback_witness:
  "\<exists>r w'. runMultiAgentSystem answering_collab ''hello'' [] ''key'' ''en-US'' False None example_world
            = (Inr r, w')
     \<and> executionMode r = DIRECT
     \<and> activeAgents r = [ORCHESTRATOR]
     \<and> response r = ''All good.''"
proof -
  let ?c = answering_collab
  let ?run = "runMultiAgentSystem ?c ''hello'' [] ''key'' ''en-US'' False None example_world"
  let ?w0 = "example_world\<lparr>ticks := Suc (ticks example_world)\<rparr>"
  let ?p = "fullPlanningContext [] ''hello'' (getFormattedContext (memoryBank ?w0))"
  let ?acc = "''User Query: '' @ ''hello'' @ ''\<newline>Session ID: '' @ sessionService ?w0
                     @ ''\<newline>History Context: '' @ [] @ ''\<newline>''
                     @ getFormattedContext (memoryBank ?w0)"
  let ?fb = "\<lparr>mode = DIRECT, steps = [\<lparr>agent = ORCHESTRATOR, instruction = ''hello''\<rparr>],
              reasoning = ''Fallback.''\<rparr>"
  let ?r0 = "\<lparr>resultText = ''Done'', isPaused = False, pauseReason = None,
             toolUsage = [''googleSearch'', ''codeExecution'']\<rparr>"
  have k: "''key'' \<noteq> []" by simp
  have h2: "contextCompaction ?c [] None ?w0 = (Inr [], ?w0)"
    by (simp add: contextCompaction_def)
  have "fst (planExecution ?c ?p ?w0) = Inl (ServiceError ''offline'')"
    by (simp add: planExecution_def Date_now_def Let_def answering_collab_def clock_collab_def)
  then obtain w2 where h3: "planExecution ?c ?p ?w0 = (Inl (ServiceError ''offline''), w2)"
    by (cases "planExecution ?c ?p ?w0") simp
  note t = planning_failure_fallback [OF k h2 h3, of "''en-US''" False, THEN conjunct2]
  from executeAgent_text_run [OF refl, of ORCHESTRATOR "''hello''" ?acc "''en-US''" w2]
  obtain w3 where x: "executeAgent ?c ORCHESTRATOR ''hello'' ?acc ''en-US'' w2 = (Inr ?r0, w3)"
    by auto
  have run: "?run = synthesisPhase ?c ''hello'' [] ''en-US'' False ?fb
      [(ORCHESTRATOR, resultText ?r0)] (toolUsage ?r0) (now ?c (ticks example_world)) w3"
    unfolding t x by (simp only: prod.case sum.case)
  from synthesisPhase_answering [OF refl refl, of "''hello''" "[]" "''en-US''" False ?fb
      "[(ORCHESTRATOR, resultText ?r0)]" "toolUsage ?r0" "now ?c (ticks example_world)" w3]
  obtain r where r: "fst ?run = Inr r" "executionMode r = mode ?fb"
    "activeAgents r = map agent (steps ?fb)" "response r = ''All good.''"
    unfolding run by blast
  have "?run = (Inr r, snd ?run)" using r(1) by (simp add: prod_eq_iff)
  with r show ?thesis by (intro exI [where x = r] exI [where x = "snd ?run"]) simp
qed

lemma refinementLoop_text:
  assumes "chatReply c = chatReply answering_collab"
    and "steps pl = step0 # rest" and "agent step0 \<noteq> EDUCATION"
  shows "\<exists>w'. refinementLoop c pl language acc outs usageLog w
     = (Inr (Continue (assign (agent step0) ''Done'' outs) usageLog), w')"
proof -
  let ?r0 = "\<lparr>resultText = ''Done'', isPaused = False, pauseReason = None,
             toolUsage = [''googleSearch'', ''codeExecution'']\<rparr>"
  from executeAgent_text_run [OF assms(1,3)]
  obtain w1 where x1: "executeAgent c (agent step0) (instruction step0) acc language w = (Inr ?r0, w1)"
    by blast
  from executeAgent_text_run [OF assms(1), of ORCHESTRATOR]
  obtain w2 where x2: "executeAgent c ORCHESTRATOR (''Critique: '' @ resultText ?r0) [] language w1
      = (Inr ?r0, w2)"
    by blast
  from executeAgent_text_run [OF assms(1,3)]
  obtain w3 where x3: "executeAgent c (agent step0) (''Refine based on: '' @ resultText ?r0)
      (''Draft: '' @ resultText ?r0) language w2 = (Inr ?r0, w3)"
    by blast
  have "refinementLoop c pl language acc outs usageLog w
     = (Inr (Continue (assign (agent step0) ''Done'' outs) usageLog), w3)"
    using x1 x2 x3 by (simp add: refinementLoop_def assms(2))
  then show ?thesis by blast
qed

text \<open>
  A fresh run with a \<^verbatim>\<open>LOOP\<close> plan: each executor call reports two tools, the synthesis
  request none.
\<close>

theorem loop_discards_tool_usage_witness:
  "\<exists>r w' k req. runMultiAgentSystem looping_collab ''q'' [] ''key'' ''en-US'' False None example_world
            = (Inr r, w')
     \<and> executionMode r = LOOP
     \<and> events w' ! k = SynthRequest req
     \<and> toolsUsed req = []
     \<and> synthesisContext req = ''HEALTH Output: Done''
     \<and> fst (executeAgent looping_collab HEALTH ''Draft a plan'' [] ''en-US'' example_world)
         = Inr \<lparr>resultText = ''Done'', isPaused = False, pauseReason = None,
                toolUsage = [''googleSearch'', ''codeExecution'']\<rparr>"
proof -
  let ?c = looping_collab
  let ?run = "runMultiAgentSystem ?c ''q'' [] ''key'' ''en-US'' False None example_world"
  let ?w0 = "example_world\<lparr>ticks := Suc (ticks example_world)\<rparr>"
  let ?p = "fullPlanningContext [] ''q'' (getFormattedContext (memoryBank ?w0))"
  let ?acc = "''User Query: '' @ ''q'' @ ''\<newline>Session ID: '' @ sessionService ?w0
                     @ ''\<newline>History Context: '' @ [] @ ''\<newline>''
                     @ getFormattedContext (memoryBank ?w0)"
  have chat: "chatReply ?c = chatReply answering_collab"
    and syn: "synthReply ?c = synthReply answering_collab"
    and sco: "scoreReply ?c = scoreReply answering_collab"
    by (simp_all add: looping_collab_def)
  have k: "''key'' \<noteq> []" by simp
  have h2: "contextCompaction ?c [] None ?w0 = (Inr [], ?w0)"
    by (simp add: contextCompaction_def)
  have "fst (planExecution ?c ?p ?w0) = Inr loop_plan"
    by (simp add: planExecution_def Date_now_def Let_def looping_collab_def)
  then obtain w2 where pe: "planExecution ?c ?p ?w0 = (Inr loop_plan, w2)"
    by (cases "planExecution ?c ?p ?w0") simp
  have h3: "planningPhase ?c ''q'' [] None ?w0 = (Inr (loop_plan, ?acc, [], 0), w2)"
    unfolding planningPhase_def Let_def option.case pe prod.case sum.case ..
  have h4: "mode loop_plan = LOOP" by (simp add: loop_plan_def)
  have st: "steps loop_plan = \<lparr>agent = HEALTH, instruction = ''Draft a plan''\<rparr> # []"
    by (simp add: loop_plan_def)
  from refinementLoop_text [OF chat st, of "''en-US''" ?acc "[]" "[]" w2]
  obtain w3 where h5: "refinementLoop ?c loop_plan ''en-US'' ?acc [] [] w2
      = (Inr (Continue (assign HEALTH ''Done'' []) []), w3)"
    by auto
  from loop_discards_tool_usage [OF k h2 h3 h4 h5, of False]
  have run: "?run = synthesisPhase ?c ''q'' [] ''en-US'' False loop_plan (assign HEALTH ''Done'' []) []
               (now ?c (ticks example_world)) w3"
    and req: "events (snd ?run) ! length (events w3)
           = SynthRequest
               \<lparr>useThinking = False, originalQuery = ''q'',
                synthesisContext = outputsText (assign HEALTH ''Done'' []), historyContext = [],
                memoryContext = getFormattedContext (memoryBank w3), toolsUsed = [],
                responseLanguage = ''en-US''\<rparr>"
    by auto
  from synthesisPhase_answering [OF syn sco, of "''q''" "[]" "''en-US''" False loop_plan
      "assign HEALTH ''Done'' []" "[]" "now ?c (ticks example_world)" w3]
  obtain r where r: "fst ?run = Inr r" "executionMode r = mode loop_plan"
    unfolding run by blast
  have a: "?run = (Inr r, snd ?run)" using r(1) by (simp add: prod_eq_iff)
  have b: "executionMode r = LOOP" using r(2) h4 by simp
  have c: "fst (executeAgent ?c HEALTH ''Draft a plan'' [] ''en-US'' example_world)
         = Inr \<lparr>resultText = ''Done'', isPaused = False, pauseReason = None,
                toolUsage = [''googleSearch'', ''codeExecution'']\<rparr>"
    by (rule executeAgent_text [OF chat]) simp
  show ?thesis
    apply (rule exI [where x = r])
    apply (rule exI [where x = "snd ?run"])
    apply (rule exI [where x = "length (events w3)"])
    apply (rule exI [where x = "\<lparr>useThinking = False, originalQuery = ''q'',
                synthesisContext = outputsText (assign HEALTH ''Done'' []), historyContext = [],
                memoryContext = getFormattedContext (memoryBank w3), toolsUsed = [],
                responseLanguage = ''en-US''\<rparr>"])
    using a b c req by (simp add: outputsText_def)
qed

end
